theory Spec2Isabelle
  imports Complex_Main
begin

section \<open>Tensors and arrays\<close>

text \<open>
  The notebook (both variants: \<^verbatim>\<open>src/unnamed/part_000\<close> and
  \<^verbatim>\<open>src/interactive-experiments/Part-III-tensorflow-introduction.ipynb\<close>) is a
  sequence of calls into TensorFlow 1.x and numpy. A tensor value, like a numpy array, is a
  shape together with its entries in row-major order. The variables, the placeholders and
  everything computed from them are declared \<open>float32\<close>, and their entries are values of the
  type \<open>float32\<close> below. The arrays that numpy builds hold \<open>float64\<close> numbers or integers
  and are taken with real entries; they become \<open>float32\<close> when they are fed to a placeholder
  or given to a variable as its initial value.
\<close>

record 'a tensor =
  shape :: "nat list"
  entries :: "'a list"

type_synonym ndarray = "real tensor"

definition wf_tensor :: "'a tensor \<Rightarrow> bool" where
  "wf_tensor t \<longleftrightarrow> length (entries t) = prod_list (shape t)"

definition scalar :: "'a \<Rightarrow> 'a tensor" where
  "scalar v = \<lparr>shape = [], entries = [v]\<rparr>"

definition vector :: "'a list \<Rightarrow> 'a tensor" where
  "vector vs = \<lparr>shape = [length vs], entries = vs\<rparr>"

definition matrix :: "'a list list \<Rightarrow> 'a tensor" where
  \<comment> \<open>a list of rows of equal length, stored row-major\<close>
  "matrix rows = \<lparr>shape = [length rows, (case rows of [] \<Rightarrow> 0 | r # _ \<Rightarrow> length r)],
                  entries = concat rows\<rparr>"

datatype error =
    ValueError string
  | TypeError string
  | InvalidArgumentError string
  | FailedPreconditionError string

section \<open>numpy\<close>

text \<open>
  \<open>np.random.randn\<close> reads the global generator. The generator is a stream of reals and the
  number of values drawn so far.
\<close>

definition np_random_randn :: "nat list \<Rightarrow> (nat \<Rightarrow> real) \<Rightarrow> nat \<Rightarrow> ndarray \<times> nat" where
  "np_random_randn dims draws pos =
     (\<lparr>shape = dims, entries = map (\<lambda>i. draws (pos + i)) [0..<prod_list dims]\<rparr>,
      pos + prod_list dims)"

definition np_asarray :: "real list \<Rightarrow> ndarray" where
  "np_asarray vs = vector vs"

definition np_append :: "ndarray \<Rightarrow> real \<Rightarrow> ndarray" where
  \<comment> \<open>without an axis both arguments are flattened\<close>
  "np_append arr v = vector (entries arr @ [v])"

definition np_maximum :: "real \<Rightarrow> ndarray \<Rightarrow> ndarray" where
  \<comment> \<open>the scalar first argument is broadcast over the array\<close>
  "np_maximum c arr = \<lparr>shape = shape arr, entries = map (\<lambda>v. max c v) (entries arr)\<rparr>"

definition np_multiply :: "ndarray \<Rightarrow> real list \<Rightarrow> error + ndarray" where
  \<comment> \<open>\<open>arr * [..]\<close>: the list becomes a one-dimensional array. Operands of the same shape are
      multiplied entry by entry, and a one-entry operand is broadcast over the other; every other
      pair of shapes that the notebook could produce here is refused by numpy.\<close>
  "np_multiply arr ws =
     (if shape arr = [length ws] then
        Inr \<lparr>shape = shape arr, entries = map2 (*) (entries arr) ws\<rparr>
      else if length ws = 1 then
        Inr \<lparr>shape = shape arr, entries = map (\<lambda>v. v * hd ws) (entries arr)\<rparr>
      else if shape arr = [1] \<or> shape arr = [] then
        Inr \<lparr>shape = [length ws], entries = map (\<lambda>w. hd (entries arr) * w) ws\<rparr>
      else Inl (ValueError ''operands could not be broadcast together''))"

section \<open>Single precision\<close>

text \<open>
  A \<open>float32\<close> is a finite number, an infinity or NaN. The two zeros are not told apart: they
  compare equal and the notebook has no operation that separates them. The result of an
  operation on finite numbers is the exact result rounded to the nearest number with a 24 bit
  significand and an exponent from -126 to 127, a tie going to the even significand; what
  rounds to \<open>2 ^ 128\<close> or beyond is an infinity.
\<close>

datatype float32 = Finite real | PosInf | NegInf | NaN

definition pow2 :: "int \<Rightarrow> real" where
  "pow2 e = (if 0 \<le> e then 2 ^ nat e else 1 / 2 ^ nat (- e))"

function exponent_from :: "int \<Rightarrow> real \<Rightarrow> int" where
  \<comment> \<open>the largest exponent \<open>e' \<le> e\<close> with \<open>2 ^ e' \<le> x\<close>, and -126 if there is none above it\<close>
  "exponent_from e x =
     (if e \<le> - 126 then - 126 else if pow2 e \<le> x then e else exponent_from (e - 1) x)"
  by pat_completeness auto
termination
  by (relation "measure (\<lambda>(e, x). nat (e + 126))") auto

declare exponent_from.simps [simp del]

definition round_half_even :: "real \<Rightarrow> int" where
  "round_half_even r =
     (let f = \<lfloor>r\<rfloor>; d = r - of_int f
      in if d < 1 / 2 then f else if 1 / 2 < d then f + 1 else if even f then f else f + 1)"

definition round32 :: "real \<Rightarrow> float32" where
  "round32 x =
     (let ulp = pow2 (exponent_from 127 \<bar>x\<bar> - 23);
          y = of_int (round_half_even (x / ulp)) * ulp
      in if pow2 128 \<le> \<bar>y\<bar> then (if 0 < x then PosInf else NegInf) else Finite y)"

fun neg32 :: "float32 \<Rightarrow> float32" where
  "neg32 (Finite x) = Finite (- x)"
| "neg32 PosInf = NegInf"
| "neg32 NegInf = PosInf"
| "neg32 NaN = NaN"

fun add32 :: "float32 \<Rightarrow> float32 \<Rightarrow> float32" where
  "add32 (Finite x) (Finite y) = round32 (x + y)"
| "add32 NaN b = NaN"
| "add32 a NaN = NaN"
| "add32 PosInf NegInf = NaN"
| "add32 NegInf PosInf = NaN"
| "add32 PosInf b = PosInf"
| "add32 NegInf b = NegInf"
| "add32 a PosInf = PosInf"
| "add32 a NegInf = NegInf"

definition sub32 :: "float32 \<Rightarrow> float32 \<Rightarrow> float32" where
  "sub32 a b = add32 a (neg32 b)"

definition signed_inf :: "real \<Rightarrow> float32" where
  \<comment> \<open>an infinity times a finite number of this sign\<close>
  "signed_inf x = (if x = 0 then NaN else if 0 < x then PosInf else NegInf)"

fun mul32 :: "float32 \<Rightarrow> float32 \<Rightarrow> float32" where
  "mul32 (Finite x) (Finite y) = round32 (x * y)"
| "mul32 NaN b = NaN"
| "mul32 a NaN = NaN"
| "mul32 PosInf PosInf = PosInf"
| "mul32 PosInf NegInf = NegInf"
| "mul32 NegInf PosInf = NegInf"
| "mul32 NegInf NegInf = PosInf"
| "mul32 PosInf (Finite y) = signed_inf y"
| "mul32 NegInf (Finite y) = signed_inf (- y)"
| "mul32 (Finite x) PosInf = signed_inf x"
| "mul32 (Finite x) NegInf = signed_inf (- x)"

fun relu32 :: "float32 \<Rightarrow> float32" where
  \<comment> \<open>the larger of the entry and 0; NaN stays NaN\<close>
  "relu32 (Finite x) = Finite (max 0 x)"
| "relu32 PosInf = PosInf"
| "relu32 NegInf = Finite 0"
| "relu32 NaN = NaN"

fun positive32 :: "float32 \<Rightarrow> bool" where
  \<comment> \<open>the comparison \<open>v > 0\<close>, false of NaN\<close>
  "positive32 (Finite x) \<longleftrightarrow> 0 < x"
| "positive32 PosInf \<longleftrightarrow> True"
| "positive32 NegInf \<longleftrightarrow> False"
| "positive32 NaN \<longleftrightarrow> False"

fun at_least_zero :: "float32 \<Rightarrow> bool" where
  \<comment> \<open>the comparison \<open>v >= 0\<close>, false of NaN\<close>
  "at_least_zero (Finite x) \<longleftrightarrow> 0 \<le> x"
| "at_least_zero PosInf \<longleftrightarrow> True"
| "at_least_zero NegInf \<longleftrightarrow> False"
| "at_least_zero NaN \<longleftrightarrow> False"

fun sum32 :: "float32 list \<Rightarrow> float32" where
  \<comment> \<open>the terms are added from left to right, each sum rounded\<close>
  "sum32 [] = Finite 0"
| "sum32 (v # vs) = foldl add32 v vs"

definition cast32 :: "ndarray \<Rightarrow> float32 tensor" where
  \<comment> \<open>the conversion of an array to \<open>float32\<close>\<close>
  "cast32 t = \<lparr>shape = shape t, entries = map round32 (entries t)\<rparr>"

definition exact32 :: "real \<Rightarrow> bool" where
  \<comment> \<open>the number is a \<open>float32\<close>: rounding does not change it\<close>
  "exact32 x \<longleftrightarrow> round32 x = Finite x"

section \<open>TensorFlow operations on values\<close>

text \<open>
  The framework is not part of the repository. Its operations are modelled as far as the
  notebook uses them, after their documented behaviour: an operation applied to values of the
  wrong shapes raises, and every raise is an \<open>Inl\<close>. Products and sums are single precision
  operations, done one after the other.
\<close>

fun count_unknown :: "int list \<Rightarrow> nat" where
  "count_unknown [] = 0"
| "count_unknown (d # ds) = (if d = -1 then 1 else 0) + count_unknown ds"

definition known_size :: "int list \<Rightarrow> nat" where
  "known_size ds = prod_list (map nat (filter (\<lambda>d. d \<noteq> -1) ds))"

definition tf_reshape :: "'a tensor \<Rightarrow> int list \<Rightarrow> error + 'a tensor" where
  \<comment> \<open>the entries keep their row-major order; one dimension may be \<open>-1\<close> and is inferred\<close>
  "tf_reshape t ds =
     (let n = length (entries t) in
      if list_ex (\<lambda>d. d < -1) ds \<or> 1 < count_unknown ds then
        Inl (InvalidArgumentError ''Reshape'')
      else if count_unknown ds = 0 then
        (if prod_list (map nat ds) = n then Inr \<lparr>shape = map nat ds, entries = entries t\<rparr>
         else Inl (InvalidArgumentError ''Reshape''))
      else
        (let k = known_size ds in
         if k = 0 \<or> n mod k \<noteq> 0 then Inl (InvalidArgumentError ''Reshape'')
         else Inr \<lparr>shape = map (\<lambda>d. if d = -1 then n div k else nat d) ds,
                   entries = entries t\<rparr>))"

definition tf_matmul :: "float32 tensor \<Rightarrow> float32 tensor \<Rightarrow> error + float32 tensor" where
  "tf_matmul a b =
     (case (shape a, shape b) of
        ([m, n], [n', p]) \<Rightarrow>
          if n = n' then
            Inr \<lparr>shape = [m, p],
                 entries = concat (map (\<lambda>i. map (\<lambda>j.
                     sum32 (map (\<lambda>k. mul32 (entries a ! (i * n + k)) (entries b ! (k * p + j)))
                              [0..<n]))
                     [0..<p]) [0..<m])\<rparr>
          else Inl (InvalidArgumentError ''MatMul'')
      | _ \<Rightarrow> Inl (InvalidArgumentError ''MatMul''))"

definition tf_transpose :: "'a tensor \<Rightarrow> error + 'a tensor" where
  "tf_transpose a =
     (case shape a of
        [m, n] \<Rightarrow>
          Inr \<lparr>shape = [n, m],
               entries = concat (map (\<lambda>j. map (\<lambda>i. entries a ! (i * n + j)) [0..<m]) [0..<n])\<rparr>
      | _ \<Rightarrow> Inl (InvalidArgumentError ''Transpose''))"

definition tf_pointwise ::
  "string \<Rightarrow> (float32 \<Rightarrow> float32 \<Rightarrow> float32) \<Rightarrow> float32 tensor \<Rightarrow> float32 tensor \<Rightarrow>
     error + float32 tensor"
  where
  \<comment> \<open>a binary operation on two tensors of the same shape. Both uses in the notebook have
      operands of static shape \<open>[3]\<close>; broadcasting between different shapes is not modelled
      and is reported as an error.\<close>
  "tf_pointwise opname f a b =
     (if shape a = shape b \<and> length (entries a) = length (entries b) then
        Inr \<lparr>shape = shape a, entries = map2 f (entries a) (entries b)\<rparr>
      else Inl (InvalidArgumentError opname))"

definition tf_add :: "float32 tensor \<Rightarrow> float32 tensor \<Rightarrow> error + float32 tensor" where
  "tf_add = tf_pointwise ''add'' add32"

definition tf_subtract :: "float32 tensor \<Rightarrow> float32 tensor \<Rightarrow> error + float32 tensor" where
  "tf_subtract = tf_pointwise ''sub'' sub32"

definition tf_nn_relu :: "float32 tensor \<Rightarrow> float32 tensor" where
  "tf_nn_relu t = \<lparr>shape = shape t, entries = map relu32 (entries t)\<rparr>"

definition tf_square :: "float32 tensor \<Rightarrow> float32 tensor" where
  "tf_square t = \<lparr>shape = shape t, entries = map (\<lambda>v. mul32 v v) (entries t)\<rparr>"

definition tf_reduce_sum :: "float32 tensor \<Rightarrow> float32 tensor" where
  \<comment> \<open>without an axis argument all dimensions are reduced\<close>
  "tf_reduce_sum t = scalar (sum32 (entries t))"

definition tf_bias_add :: "float32 tensor \<Rightarrow> float32 tensor \<Rightarrow> error + float32 tensor" where
  \<comment> \<open>adds a vector to every row of a matrix\<close>
  "tf_bias_add a b =
     (case (shape a, shape b) of
        ([m, n], [n']) \<Rightarrow>
          if n = n' then
            Inr \<lparr>shape = [m, n],
                 entries = concat (map (\<lambda>i. map (\<lambda>j. add32 (entries a ! (i * n + j)) (entries b ! j))
                                   [0..<n]) [0..<m])\<rparr>
          else Inl (InvalidArgumentError ''BiasAdd'')
      | _ \<Rightarrow> Inl (InvalidArgumentError ''BiasAdd''))"

section \<open>The computation graph\<close>

text \<open>
  A TensorFlow 1.x call such as \<open>tf.matmul\<close> computes nothing: it adds a node to the graph and
  returns a handle to it. The handles are the values of this datatype, one constructor for each
  framework call the notebook makes. A placeholder has a name and an optional declared shape
  (\<open>None\<close> for a dimension of unknown size), and no entries. A constant keeps the array it
  was built from. The notebook prints its two constants and never evaluates them; if one were
  evaluated here, it would be as a \<open>float32\<close> tensor, which is the type of \<open>constant_scalar\<close>
  and not of \<open>constant_matrix\<close>, a \<open>float64\<close> tensor.
\<close>

datatype activation = Linear | ReluActivation

datatype tf_tensor =
    Constant ndarray
  | Variable string "nat list"
  | Placeholder string "nat option list option"
  | Reshape tf_tensor "int list"
  | MatMul tf_tensor tf_tensor
  | Add tf_tensor tf_tensor
  | Sub tf_tensor tf_tensor
  | Relu tf_tensor
  | Square tf_tensor
  | ReduceSum tf_tensor
  | Dense tf_tensor nat activation

datatype tf_operation =
    GlobalVariablesInitializer "(string \<times> ndarray) list"
  | Minimize real tf_tensor

datatype fetch = Tensor tf_tensor | Operation tf_operation

type_synonym variables = "string \<rightharpoonup> float32 tensor"
type_synonym feeds = "string \<rightharpoonup> float32 tensor"

subsection \<open>Evaluation\<close>

definition read_variable :: "variables \<Rightarrow> string \<Rightarrow> error + float32 tensor" where
  "read_variable vars name =
     (case vars name of
        None \<Rightarrow> Inl (FailedPreconditionError name)
      | Some v \<Rightarrow> Inr v)"

definition read_placeholder :: "feeds \<Rightarrow> string \<Rightarrow> error + float32 tensor" where
  "read_placeholder fed name =
     (case fed name of
        None \<Rightarrow> Inl (InvalidArgumentError name)
      | Some v \<Rightarrow> Inr v)"

definition apply_activation :: "activation \<Rightarrow> float32 tensor \<Rightarrow> float32 tensor" where
  "apply_activation act t = (case act of Linear \<Rightarrow> t | ReluActivation \<Rightarrow> tf_nn_relu t)"

text \<open>
  \<open>tf.layers.dense\<close> creates its own kernel and bias variables, \<open>dense/kernel\<close> and
  \<open>dense/bias\<close>, and computes the activation of the input times the kernel plus the bias.
\<close>

definition then_do :: "error + 'a \<Rightarrow> ('a \<Rightarrow> error + 'b) \<Rightarrow> error + 'b" where
  \<comment> \<open>sequencing: an exception of the first computation skips the second\<close>
  "then_do r k = (case r of Inl e \<Rightarrow> Inl e | Inr v \<Rightarrow> k v)"

fun eval :: "variables \<Rightarrow> feeds \<Rightarrow> tf_tensor \<Rightarrow> error + float32 tensor" where
  "eval vars fed (Constant t) = Inr (cast32 t)"
| "eval vars fed (Variable name dims) = read_variable vars name"
| "eval vars fed (Placeholder name dims) = read_placeholder fed name"
| "eval vars fed (Reshape x dims) =
     then_do (eval vars fed x) (\<lambda>v. tf_reshape v dims)"
| "eval vars fed (MatMul a b) =
     then_do (eval vars fed a) (\<lambda>va. then_do (eval vars fed b) (\<lambda>vb. tf_matmul va vb))"
| "eval vars fed (Add a b) =
     then_do (eval vars fed a) (\<lambda>va. then_do (eval vars fed b) (\<lambda>vb. tf_add va vb))"
| "eval vars fed (Sub a b) =
     then_do (eval vars fed a) (\<lambda>va. then_do (eval vars fed b) (\<lambda>vb. tf_subtract va vb))"
| "eval vars fed (Relu x) = then_do (eval vars fed x) (\<lambda>v. Inr (tf_nn_relu v))"
| "eval vars fed (Square x) = then_do (eval vars fed x) (\<lambda>v. Inr (tf_square v))"
| "eval vars fed (ReduceSum x) = then_do (eval vars fed x) (\<lambda>v. Inr (tf_reduce_sum v))"
| "eval vars fed (Dense x units act) =
     then_do (eval vars fed x) (\<lambda>v.
     then_do (read_variable vars ''dense/kernel'') (\<lambda>kernel.
     then_do (read_variable vars ''dense/bias'') (\<lambda>bias.
     then_do (tf_matmul v kernel) (\<lambda>prod.
     then_do (tf_bias_add prod bias) (\<lambda>s. Inr (apply_activation act s))))))"

subsection \<open>Gradients\<close>

text \<open>
  \<open>optimizer.minimize(loss)\<close> differentiates the loss by reverse accumulation: the gradient
  arriving at a node is passed on to its inputs, and every variable collects what arrives.
  The result lists the contributions to each variable. The ReLU passes the gradient where
  its input is positive.
\<close>

definition scale :: "float32 \<Rightarrow> float32 tensor \<Rightarrow> float32 tensor" where
  "scale c t = \<lparr>shape = shape t, entries = map (\<lambda>v. mul32 c v) (entries t)\<rparr>"

definition negate :: "float32 tensor \<Rightarrow> float32 tensor" where
  "negate t = \<lparr>shape = shape t, entries = map neg32 (entries t)\<rparr>"

definition relu_grad :: "float32 tensor \<Rightarrow> float32 tensor \<Rightarrow> float32 tensor" where
  "relu_grad g x =
     \<lparr>shape = shape x,
      entries = map2 (\<lambda>gi xi. if positive32 xi then gi else Finite 0) (entries g) (entries x)\<rparr>"

definition square_grad :: "float32 tensor \<Rightarrow> float32 tensor \<Rightarrow> float32 tensor" where
  "square_grad g x =
     \<lparr>shape = shape x,
      entries = map2 (\<lambda>gi xi. mul32 gi (mul32 (Finite 2) xi)) (entries g) (entries x)\<rparr>"

definition sum_grad :: "float32 tensor \<Rightarrow> float32 tensor \<Rightarrow> error + float32 tensor" where
  "sum_grad g x =
     (case entries g of
        [g0] \<Rightarrow> Inr \<lparr>shape = shape x, entries = replicate (length (entries x)) g0\<rparr>
      | _ \<Rightarrow> Inl (InvalidArgumentError ''Sum_grad''))"

definition column_sums :: "float32 tensor \<Rightarrow> error + float32 tensor" where
  "column_sums g =
     (case shape g of
        [m, n] \<Rightarrow>
          Inr \<lparr>shape = [n],
               entries = map (\<lambda>j. sum32 (map (\<lambda>i. entries g ! (i * n + j)) [0..<m])) [0..<n]\<rparr>
      | _ \<Rightarrow> Inl (InvalidArgumentError ''BiasAddGrad''))"

fun gradients ::
  "variables \<Rightarrow> feeds \<Rightarrow> tf_tensor \<Rightarrow> float32 tensor \<Rightarrow> error + (string \<times> float32 tensor) list"
  where
  "gradients vars fed (Constant t) g = Inr []"
| "gradients vars fed (Variable name dims) g = Inr [(name, g)]"
| "gradients vars fed (Placeholder name dims) g = Inr []"
| "gradients vars fed (Reshape x dims) g =
     then_do (eval vars fed x) (\<lambda>v.
     then_do (tf_reshape g (map int (shape v))) (\<lambda>gx. gradients vars fed x gx))"
| "gradients vars fed (MatMul a b) g =
     then_do (eval vars fed a) (\<lambda>va.
     then_do (eval vars fed b) (\<lambda>vb.
     then_do (tf_transpose vb) (\<lambda>vbT.
     then_do (tf_transpose va) (\<lambda>vaT.
     then_do (tf_matmul g vbT) (\<lambda>ga.
     then_do (tf_matmul vaT g) (\<lambda>gb.
     then_do (gradients vars fed a ga) (\<lambda>ca.
     then_do (gradients vars fed b gb) (\<lambda>cb. Inr (ca @ cb)))))))))"
| "gradients vars fed (Add a b) g =
     then_do (gradients vars fed a g) (\<lambda>ca.
     then_do (gradients vars fed b g) (\<lambda>cb. Inr (ca @ cb)))"
| "gradients vars fed (Sub a b) g =
     then_do (gradients vars fed a g) (\<lambda>ca.
     then_do (gradients vars fed b (negate g)) (\<lambda>cb. Inr (ca @ cb)))"
| "gradients vars fed (Relu x) g =
     then_do (eval vars fed x) (\<lambda>v. gradients vars fed x (relu_grad g v))"
| "gradients vars fed (Square x) g =
     then_do (eval vars fed x) (\<lambda>v. gradients vars fed x (square_grad g v))"
| "gradients vars fed (ReduceSum x) g =
     then_do (eval vars fed x) (\<lambda>v.
     then_do (sum_grad g v) (\<lambda>gx. gradients vars fed x gx))"
| "gradients vars fed (Dense x units act) g =
     then_do (eval vars fed (Dense x units Linear)) (\<lambda>pre.
     then_do (eval vars fed x) (\<lambda>v.
     then_do (read_variable vars ''dense/kernel'') (\<lambda>kernel.
     then_do (tf_transpose kernel) (\<lambda>kernelT.
     then_do (tf_transpose v) (\<lambda>vT.
     (let gs = (case act of Linear \<Rightarrow> g | ReluActivation \<Rightarrow> relu_grad g pre) in
      then_do (column_sums gs) (\<lambda>gbias.
      then_do (tf_matmul vT gs) (\<lambda>gkernel.
      then_do (tf_matmul gs kernelT) (\<lambda>gx.
      then_do (gradients vars fed x gx) (\<lambda>cx.
        Inr ((''dense/kernel'', gkernel) # (''dense/bias'', gbias) # cx)))))))))))"

fun apply_gradients ::
  "real \<Rightarrow> (string \<times> float32 tensor) list \<Rightarrow> variables \<Rightarrow> error + variables" where
  \<comment> \<open>gradient descent: every contribution \<open>g\<close> to a variable moves it by \<open>- rate * g\<close>, the
      learning rate taken in single precision\<close>
  "apply_gradients rate [] vars = Inr vars"
| "apply_gradients rate ((name, g) # cs) vars =
     then_do (read_variable vars name) (\<lambda>v.
     then_do (tf_subtract v (scale (round32 rate) g)) (\<lambda>v'.
       apply_gradients rate cs (vars(name \<mapsto> v'))))"

subsection \<open>Sessions\<close>

text \<open>
  A session holds the current values of the variables; a variable that was never initialised
  has none. \<open>session.run(fetches, feed_dict)\<close> converts the fed arrays to \<open>float32\<close> and binds
  them to their placeholders, evaluates the fetched tensors on the variables as they are
  before the call, and runs the fetched operations. An operation is fetched as \<open>None\<close>.
\<close>

definition compatible :: "nat option list option \<Rightarrow> 'a tensor \<Rightarrow> bool" where
  "compatible declared t =
     (case declared of
        None \<Rightarrow> True
      | Some ds \<Rightarrow> list_all2 (\<lambda>d n. d = None \<or> d = Some n) ds (shape t))"

fun bind_feeds :: "(tf_tensor \<times> ndarray) list \<Rightarrow> feeds \<Rightarrow> error + feeds" where
  "bind_feeds [] fed = Inr fed"
| "bind_feeds ((Placeholder name dims, v) # rest) fed =
     (if compatible dims v \<and> wf_tensor v then bind_feeds rest (fed(name \<mapsto> cast32 v))
      else Inl (ValueError ''Cannot feed value''))"
| "bind_feeds ((_, v) # rest) fed = Inl (TypeError ''Cannot interpret feed_dict key'')"

definition ones_like :: "float32 tensor \<Rightarrow> float32 tensor" where
  "ones_like t = \<lparr>shape = shape t, entries = replicate (length (entries t)) (Finite 1)\<rparr>"

fun run_operation :: "variables \<Rightarrow> feeds \<Rightarrow> variables \<Rightarrow> tf_operation \<Rightarrow> error + variables"
  where
  "run_operation vars0 fed vars (GlobalVariablesInitializer inits) =
     Inr (fold (\<lambda>(name, t) m. m(name \<mapsto> cast32 t)) inits vars)"
| "run_operation vars0 fed vars (Minimize rate loss) =
     then_do (eval vars0 fed loss) (\<lambda>l.
     then_do (gradients vars0 fed loss (ones_like l)) (\<lambda>cs.
       apply_gradients rate cs vars))"

fun run_fetches ::
  "variables \<Rightarrow> feeds \<Rightarrow> variables \<Rightarrow> fetch list \<Rightarrow>
     error + (variables \<times> float32 tensor option list)"
  where
  "run_fetches vars0 fed vars [] = Inr (vars, [])"
| "run_fetches vars0 fed vars (Tensor x # fs) =
     then_do (eval vars0 fed x) (\<lambda>v.
     then_do (run_fetches vars0 fed vars fs) (\<lambda>(vars', vs). Inr (vars', Some v # vs)))"
| "run_fetches vars0 fed vars (Operation op # fs) =
     then_do (run_operation vars0 fed vars op) (\<lambda>vars1.
     then_do (run_fetches vars0 fed vars1 fs) (\<lambda>(vars', vs). Inr (vars', None # vs)))"

definition session_run ::
  "variables \<Rightarrow> fetch list \<Rightarrow> (tf_tensor \<times> ndarray) list \<Rightarrow>
     error + (variables \<times> float32 tensor option list)"
  where
  "session_run vars fetches feed_dict =
     then_do (bind_feeds feed_dict Map.empty) (\<lambda>fed. run_fetches vars fed vars fetches)"

section \<open>The notebook\<close>

text \<open>
  The state of a run of the notebook: how many values the random generator has handed out, the
  variables of the session, what has been printed, and the calls of \<open>session.run\<close> made so far,
  each with its fetches and the keys of its \<open>feed_dict\<close>.
\<close>

datatype printed =
    PrintHandle tf_tensor
  | PrintValues "float32 tensor option list"
  | PrintArray "float32 tensor"
  | PrintHeader
  | PrintRow nat float32

record notebook =
  generator :: nat
  session :: variables
  stdout :: "printed list"
  calls :: "(fetch list \<times> tf_tensor list) list"

definition run :: "notebook \<Rightarrow> fetch list \<Rightarrow> (tf_tensor \<times> ndarray) list \<Rightarrow>
     error + (notebook \<times> float32 tensor option list)" where
  \<comment> \<open>\<open>session.run(fetches, feed_dict)\<close> in a cell: the call is made on the session of the
      notebook and is noted with its fetches and the keys of its \<open>feed_dict\<close>\<close>
  "run nb fetches feed_dict =
     then_do (session_run (session nb) fetches feed_dict) (\<lambda>(vars', results).
       Inr (nb\<lparr>session := vars', calls := calls nb @ [(fetches, map fst feed_dict)]\<rparr>, results))"

fun for_range :: "nat list \<Rightarrow> (nat \<Rightarrow> 's \<Rightarrow> error + 's) \<Rightarrow> 's \<Rightarrow> error + 's" where
  \<comment> \<open>\<open>for i in range(..): body\<close>; an exception in the body ends the loop\<close>
  "for_range [] body s = Inr s"
| "for_range (i # is) body s = then_do (body i s) (for_range is body)"

subsection \<open>The cells of \<^verbatim>\<open>src/unnamed/part_000\<close>\<close>

text \<open>
  The cells in the order of the file; the line numbers are those of the file. The three calls
  of \<open>np.random.randn\<close> that build the constant matrix and the initial values of the two
  variables (lines 61, 79 and 82) draw 6, 6 and 3 values, in this order. A variable is known to
  the graph by its name and shape; its initial value is what the initialiser assigns.
\<close>

definition constant_scalar :: tf_tensor where
  "constant_scalar = Constant (scalar 5)"

definition constant_matrix :: "(nat \<Rightarrow> real) \<Rightarrow> tf_tensor" where
  "constant_matrix draws = Constant (fst (np_random_randn [3, 2] draws 0))"

definition variable_matrix :: tf_tensor where
  "variable_matrix = Variable ''my_matrix'' [3, 2]"

definition variable_vector :: tf_tensor where
  "variable_vector = Variable ''my_vector'' [3]"

definition global_variables_initializer :: "(nat \<Rightarrow> real) \<Rightarrow> tf_operation" where
  "global_variables_initializer draws =
     GlobalVariablesInitializer
       [(''my_matrix'', fst (np_random_randn [3, 2] draws 6)),
        (''my_vector'', fst (np_random_randn [3] draws 12))]"

definition placeholder_input :: tf_tensor where
  \<comment> \<open>line 103\<close>
  "placeholder_input = Placeholder ''my_input'' (Some [Some 2])"

definition matrix_product :: tf_tensor where
  \<comment> \<open>line 105\<close>
  "matrix_product = Reshape (MatMul variable_matrix (Reshape placeholder_input [2, 1])) [3]"

definition vector_sum :: tf_tensor where
  \<comment> \<open>line 107; \<open>+\<close> on tensors is the framework's addition\<close>
  "vector_sum = Add matrix_product variable_vector"

definition relu_vector :: tf_tensor where
  \<comment> \<open>line 109\<close>
  "relu_vector = Relu vector_sum"

definition session_cell :: "(nat \<Rightarrow> real) \<Rightarrow> notebook \<Rightarrow> error + notebook" where
  \<comment> \<open>lines 129 to 132: a new session, in which no variable has a value yet\<close>
  "session_cell draws nb =
     then_do (run (nb\<lparr>session := Map.empty\<rparr>) [Operation (global_variables_initializer draws)] [])
       (\<lambda>(nb1, _).
     then_do (run nb1 [Tensor relu_vector] [(placeholder_input, np_asarray [1, 2])])
       (\<lambda>(nb2, relu_vector_value).
     Inr (nb2\<lparr>stdout := stdout nb2 @ [PrintValues relu_vector_value]\<rparr>)))"

definition placeholder_output :: tf_tensor where
  "placeholder_output = Placeholder ''my_output'' (Some [Some 3])"

definition loss :: tf_tensor where
  \<comment> \<open>line 155\<close>
  "loss = ReduceSum (Square (Sub relu_vector placeholder_output))"

definition out_vec :: "ndarray \<Rightarrow> error + ndarray" where
  \<comment> \<open>line 163, as a function of the input drawn in line 162\<close>
  "out_vec in_vec = np_multiply (np_maximum 0 (np_append in_vec 0)) [1, 0, 0]"

definition retrieve_cell :: "notebook \<Rightarrow> error + notebook" where
  \<comment> \<open>lines 184 to 186\<close>
  "retrieve_cell nb =
     then_do (run nb [Tensor variable_matrix, Tensor variable_vector] [])
       (\<lambda>(nb', results).
          case results of
            [Some matrix_value, Some vector_value] \<Rightarrow>
              Inr (nb'\<lparr>stdout := stdout nb' @ [PrintArray matrix_value, PrintArray vector_value]\<rparr>)
          | _ \<Rightarrow> Inl (ValueError ''unpack''))"

definition batched_vectors :: tf_tensor where
  "batched_vectors = Placeholder ''Placeholder'' (Some [None, Some 5])"

definition alternative_relu_vector :: tf_tensor where
  \<comment> \<open>line 223; the layer is built and printed, never run\<close>
  "alternative_relu_vector = Dense (Reshape placeholder_input [-1, 2]) 3 ReluActivation"

definition gradient_descent_step :: tf_operation where
  \<comment> \<open>lines 156 and 157\<close>
  "gradient_descent_step = Minimize 0.1 loss"

definition training_iteration :: "(nat \<Rightarrow> real) \<Rightarrow> nat \<Rightarrow> notebook \<Rightarrow> error + notebook" where
  \<comment> \<open>the body of the loop, lines 162 to 168: the two results of \<open>session.run\<close> are unpacked
      and the second, a scalar, is formatted into the printed row\<close>
  "training_iteration draws i nb =
     (case np_random_randn [2] draws (generator nb) of (in_vec, pos) \<Rightarrow>
      then_do (out_vec in_vec) (\<lambda>out_vec_value.
      then_do (run nb [Operation gradient_descent_step, Tensor loss]
                 [(placeholder_input, in_vec), (placeholder_output, out_vec_value)])
        (\<lambda>(nb', results).
           case results of
             [_, Some loss_value] \<Rightarrow>
               (case entries loss_value of
                  [l] \<Rightarrow> Inr (nb'\<lparr>generator := pos, stdout := stdout nb' @ [PrintRow i l]\<rparr>)
                | _ \<Rightarrow> Inl (TypeError ''format''))
           | _ \<Rightarrow> Inl (ValueError ''unpack''))))"

definition training_cell :: "(nat \<Rightarrow> real) \<Rightarrow> notebook \<Rightarrow> error + notebook" where
  \<comment> \<open>lines 160 and 161: the header, then the loop\<close>
  "training_cell draws nb =
     for_range [0..<150] (training_iteration draws) (nb\<lparr>stdout := stdout nb @ [PrintHeader]\<rparr>)"

definition graph_cells :: "(nat \<Rightarrow> real) \<Rightarrow> notebook \<Rightarrow> notebook" where
  \<comment> \<open>the cells before the session build the graph, draw the 15 random values and print the
      handle of each tensor they build\<close>
  "graph_cells draws nb =
     nb\<lparr>generator := generator nb + 15,
        stdout := stdout nb @
          map PrintHandle
            [constant_scalar, constant_matrix draws, variable_matrix, variable_vector,
             placeholder_input, matrix_product, vector_sum, relu_vector]\<rparr>"

definition last_cells :: "notebook \<Rightarrow> notebook" where
  \<comment> \<open>the two cells after the retrieval build and print one tensor each\<close>
  "last_cells nb =
     nb\<lparr>stdout := stdout nb @ map PrintHandle [batched_vectors, alternative_relu_vector]\<rparr>"

definition run_notebook :: "(nat \<Rightarrow> real) \<Rightarrow> error + notebook" where
  \<comment> \<open>the cells of \<^verbatim>\<open>src/unnamed/part_000\<close> run once from top to bottom\<close>
  "run_notebook draws =
     then_do (session_cell draws
                (graph_cells draws
                   \<lparr>generator = 0, session = Map.empty, stdout = [], calls = []\<rparr>)) (\<lambda>nb.
     then_do (training_cell draws nb) (\<lambda>nb.
     then_do (retrieve_cell nb) (\<lambda>nb. Inr (last_cells nb))))"

subsection \<open>The cells of the layer and of the training in the ipynb variant\<close>

text \<open>
  Transcribed again from
  \<^verbatim>\<open>src/interactive-experiments/Part-III-tensorflow-introduction.ipynb\<close> (lines 103,
  106, 138 to 144 and 221 to 235), so that the two variants can be compared. The other code
  cells of this file are those of \<^verbatim>\<open>src/unnamed/part_000\<close>, character by character.
\<close>

definition variable_matrix_ipynb :: tf_tensor where
  "variable_matrix_ipynb = Variable ''my_matrix'' [3, 2]"

definition variable_vector_ipynb :: tf_tensor where
  "variable_vector_ipynb = Variable ''my_vector'' [3]"

definition placeholder_input_ipynb :: tf_tensor where
  "placeholder_input_ipynb = Placeholder ''my_input'' (Some [Some 2])"

definition matrix_product_ipynb :: tf_tensor where
  "matrix_product_ipynb =
     Reshape (MatMul variable_matrix_ipynb (Reshape placeholder_input_ipynb [2, 1])) [3]"

definition vector_sum_ipynb :: tf_tensor where
  "vector_sum_ipynb = Add matrix_product_ipynb variable_vector_ipynb"

definition relu_vector_ipynb :: tf_tensor where
  "relu_vector_ipynb = Relu vector_sum_ipynb"

definition placeholder_output_ipynb :: tf_tensor where
  "placeholder_output_ipynb = Placeholder ''my_output'' (Some [Some 3])"

definition loss_ipynb :: tf_tensor where
  "loss_ipynb = ReduceSum (Square (Sub relu_vector_ipynb placeholder_output_ipynb))"

definition out_vec_ipynb :: "ndarray \<Rightarrow> error + ndarray" where
  "out_vec_ipynb in_vec = np_multiply (np_maximum 0 (np_append in_vec 0)) [1, 0, 0]"

definition gradient_descent_step_ipynb :: tf_operation where
  "gradient_descent_step_ipynb = Minimize 0.07 loss_ipynb"

definition training_iteration_ipynb :: "(nat \<Rightarrow> real) \<Rightarrow> nat \<Rightarrow> notebook \<Rightarrow> error + notebook"
  where
  "training_iteration_ipynb draws i nb =
     (case np_random_randn [2] draws (generator nb) of (in_vec, pos) \<Rightarrow>
      then_do (out_vec_ipynb in_vec) (\<lambda>out_vec_value.
      then_do (run nb [Operation gradient_descent_step_ipynb, Tensor loss_ipynb]
                 [(placeholder_input_ipynb, in_vec), (placeholder_output_ipynb, out_vec_value)])
        (\<lambda>(nb', results).
           case results of
             [_, Some loss_value] \<Rightarrow>
               (case entries loss_value of
                  [l] \<Rightarrow> Inr (nb'\<lparr>generator := pos, stdout := stdout nb' @ [PrintRow i l]\<rparr>)
                | _ \<Rightarrow> Inl (TypeError ''format''))
           | _ \<Rightarrow> Inl (ValueError ''unpack''))))"

definition training_cell_ipynb :: "(nat \<Rightarrow> real) \<Rightarrow> notebook \<Rightarrow> error + notebook" where
  "training_cell_ipynb draws nb =
     for_range [0..<15] (training_iteration_ipynb draws)
       (nb\<lparr>stdout := stdout nb @ [PrintHeader]\<rparr>)"

definition run_notebook_ipynb :: "(nat \<Rightarrow> real) \<Rightarrow> error + notebook" where
  \<comment> \<open>the cells of the ipynb variant run once from top to bottom\<close>
  "run_notebook_ipynb draws =
     then_do (session_cell draws
                (graph_cells draws
                   \<lparr>generator = 0, session = Map.empty, stdout = [], calls = []\<rparr>)) (\<lambda>nb.
     then_do (training_cell_ipynb draws nb) (\<lambda>nb.
     then_do (retrieve_cell nb) (\<lambda>nb. Inr (last_cells nb))))"

subsection \<open>States in which the variables hold values of their shapes\<close>

definition has_shape :: "nat list \<Rightarrow> 'a tensor \<Rightarrow> bool" where
  "has_shape dims t \<longleftrightarrow> shape t = dims \<and> wf_tensor t"

definition initialised :: "variables \<Rightarrow> bool" where
  \<comment> \<open>both variables of the layer hold a value of their shape, as they do from the
      initialiser on: gradient descent keeps the shapes\<close>
  "initialised vars \<longleftrightarrow>
     (case vars ''my_matrix'' of None \<Rightarrow> False | Some w \<Rightarrow> has_shape [3, 2] w) \<and>
     (case vars ''my_vector'' of None \<Rightarrow> False | Some b \<Rightarrow> has_shape [3] b)"

subsection \<open>One training loop for a learning rate and a number of iterations\<close>

text \<open>
  The loop of the training cell with the learning rate and the number of iterations as
  parameters. Both variants are compared with it.
\<close>

definition descent_iteration ::
  "real \<Rightarrow> (nat \<Rightarrow> real) \<Rightarrow> nat \<Rightarrow> notebook \<Rightarrow> error + notebook" where
  "descent_iteration rate draws i nb =
     (case np_random_randn [2] draws (generator nb) of (in_vec, pos) \<Rightarrow>
      then_do (out_vec in_vec) (\<lambda>out_vec_value.
      then_do (run nb [Operation (Minimize rate loss), Tensor loss]
                 [(placeholder_input, in_vec), (placeholder_output, out_vec_value)])
        (\<lambda>(nb', results).
           case results of
             [_, Some loss_value] \<Rightarrow>
               (case entries loss_value of
                  [l] \<Rightarrow> Inr (nb'\<lparr>generator := pos, stdout := stdout nb' @ [PrintRow i l]\<rparr>)
                | _ \<Rightarrow> Inl (TypeError ''format''))
           | _ \<Rightarrow> Inl (ValueError ''unpack''))))"

definition descent_loop :: "real \<Rightarrow> nat \<Rightarrow> (nat \<Rightarrow> real) \<Rightarrow> notebook \<Rightarrow> error + notebook"
  where
  "descent_loop rate n draws nb =
     for_range [0..<n] (descent_iteration rate draws) (nb\<lparr>stdout := stdout nb @ [PrintHeader]\<rparr>)"

definition training_feed :: "(nat \<Rightarrow> real) \<Rightarrow> nat \<Rightarrow> (tf_tensor \<times> ndarray) list" where
  \<comment> \<open>the \<open>feed_dict\<close> of an iteration that starts with the generator at \<open>pos\<close>\<close>
  "training_feed draws pos =
     [(placeholder_input, vector [draws pos, draws (pos + 1)]),
      (placeholder_output, vector [max 0 (draws pos), 0, 0])]"

subsection \<open>The matrix-vector product\<close>

definition mat_vec :: "real list list \<Rightarrow> real list \<Rightarrow> real list" where
  \<comment> \<open>the product of a matrix, given by its rows, and a vector: entry \<open>i\<close> is
      \<open>\<Sum>j. W i j * x j\<close>\<close>
  "mat_vec rows x = map (\<lambda>row. \<Sum>j\<leftarrow>[0..<length x]. row ! j * x ! j) rows"

definition mat_vec32 :: "float32 list list \<Rightarrow> float32 list \<Rightarrow> float32 list" where
  \<comment> \<open>the same product in single precision: every product and every partial sum is rounded\<close>
  "mat_vec32 rows x = map (\<lambda>row. sum32 (map (\<lambda>j. mul32 (row ! j) (x ! j)) [0..<length x])) rows"

definition no_rounding :: "real \<Rightarrow> real \<Rightarrow> real \<Rightarrow> real \<Rightarrow> real \<Rightarrow> bool" where
  \<comment> \<open>the entry \<open>w1 * x1 + w2 * x2 + b\<close> of the layer is computed without rounding: the inputs,
      both products and both sums are \<open>float32\<close> numbers\<close>
  "no_rounding w1 w2 b x1 x2 \<longleftrightarrow>
     exact32 x1 \<and> exact32 x2 \<and> exact32 (w1 * x1) \<and> exact32 (w2 * x2) \<and>
     exact32 (w1 * x1 + w2 * x2) \<and> exact32 (w1 * x1 + w2 * x2 + b)"

fun not_negative :: "float32 \<Rightarrow> bool" where
  \<comment> \<open>at least 0 or NaN\<close>
  "not_negative (Finite x) \<longleftrightarrow> 0 \<le> x"
| "not_negative PosInf \<longleftrightarrow> True"
| "not_negative NegInf \<longleftrightarrow> False"
| "not_negative NaN \<longleftrightarrow> True"

subsection \<open>Framework calls and placeholders of the graph\<close>

datatype tf_api =
    Api_constant
  | Api_Variable
  | Api_placeholder
  | Api_matmul
  | Api_reshape
  | Api_nn_relu
  | Api_add
  | Api_subtract
  | Api_square
  | Api_reduce_sum
  | Api_layers_dense
  | Api_GradientDescentOptimizer
  | Api_global_variables_initializer
  | Api_Session

fun api_calls :: "tf_tensor \<Rightarrow> tf_api list" where
  \<comment> \<open>the framework calls that build a tensor of the graph\<close>
  "api_calls (Constant t) = [Api_constant]"
| "api_calls (Variable name dims) = [Api_Variable]"
| "api_calls (Placeholder name dims) = [Api_placeholder]"
| "api_calls (Reshape x dims) = Api_reshape # api_calls x"
| "api_calls (MatMul a b) = Api_matmul # api_calls a @ api_calls b"
| "api_calls (Add a b) = Api_add # api_calls a @ api_calls b"
| "api_calls (Sub a b) = Api_subtract # api_calls a @ api_calls b"
| "api_calls (Relu x) = Api_nn_relu # api_calls x"
| "api_calls (Square x) = Api_square # api_calls x"
| "api_calls (ReduceSum x) = Api_reduce_sum # api_calls x"
| "api_calls (Dense x units act) = Api_layers_dense # api_calls x"

fun operation_calls :: "tf_operation \<Rightarrow> tf_api list" where
  "operation_calls (GlobalVariablesInitializer inits) = [Api_global_variables_initializer]"
| "operation_calls (Minimize rate x) = Api_GradientDescentOptimizer # api_calls x"

definition notebook_calls :: "(nat \<Rightarrow> real) \<Rightarrow> tf_api list" where
  \<comment> \<open>the framework calls of \<^verbatim>\<open>src/unnamed/part_000\<close>, cell by cell\<close>
  "notebook_calls draws =
     api_calls constant_scalar @ api_calls (constant_matrix draws) @
     api_calls variable_matrix @ api_calls variable_vector @
     api_calls relu_vector @
     Api_Session # operation_calls (global_variables_initializer draws) @
     api_calls loss @ operation_calls gradient_descent_step @
     api_calls batched_vectors @ api_calls alternative_relu_vector"

definition notebook_calls_ipynb :: "(nat \<Rightarrow> real) \<Rightarrow> tf_api list" where
  \<comment> \<open>the framework calls of the ipynb variant\<close>
  "notebook_calls_ipynb draws =
     api_calls constant_scalar @ api_calls (constant_matrix draws) @
     api_calls variable_matrix_ipynb @ api_calls variable_vector_ipynb @
     api_calls relu_vector_ipynb @
     Api_Session # operation_calls (global_variables_initializer draws) @
     api_calls loss_ipynb @ operation_calls gradient_descent_step_ipynb @
     api_calls batched_vectors @ api_calls alternative_relu_vector"

definition enumerated_primitives :: "tf_api set" where
  \<comment> \<open>the specification's list: constant, variable and placeholder tensors, matrix
      multiplication, reshape, ReLU, an optimizer, a session\<close>
  "enumerated_primitives =
     {Api_constant, Api_Variable, Api_placeholder, Api_matmul, Api_reshape, Api_nn_relu,
      Api_GradientDescentOptimizer, Api_Session}"

fun placeholders_of :: "tf_tensor \<Rightarrow> tf_tensor set" where
  \<comment> \<open>the placeholders a tensor is computed from\<close>
  "placeholders_of (Constant t) = {}"
| "placeholders_of (Variable name dims) = {}"
| "placeholders_of (Placeholder name dims) = {Placeholder name dims}"
| "placeholders_of (Reshape x dims) = placeholders_of x"
| "placeholders_of (MatMul a b) = placeholders_of a \<union> placeholders_of b"
| "placeholders_of (Add a b) = placeholders_of a \<union> placeholders_of b"
| "placeholders_of (Sub a b) = placeholders_of a \<union> placeholders_of b"
| "placeholders_of (Relu x) = placeholders_of x"
| "placeholders_of (Square x) = placeholders_of x"
| "placeholders_of (ReduceSum x) = placeholders_of x"
| "placeholders_of (Dense x units act) = placeholders_of x"

fun fetch_placeholders :: "fetch \<Rightarrow> tf_tensor set" where
  "fetch_placeholders (Tensor x) = placeholders_of x"
| "fetch_placeholders (Operation (GlobalVariablesInitializer inits)) = {}"
| "fetch_placeholders (Operation (Minimize rate x)) = placeholders_of x"

fun needed :: "fetch list \<Rightarrow> tf_tensor set" where
  "needed [] = {}"
| "needed (f # fs) = fetch_placeholders f \<union> needed fs"

definition declared_shape :: "tf_tensor \<Rightarrow> nat option list option" where
  "declared_shape x = (case x of Placeholder name dims \<Rightarrow> dims | _ \<Rightarrow> None)"

definition fed_exactly :: "fetch list \<times> tf_tensor list \<Rightarrow> bool" where
  \<comment> \<open>the keys of the \<open>feed_dict\<close> of a call are the placeholders that its fetches need\<close>
  "fed_exactly call = (case call of (fetches, keys) \<Rightarrow> set keys = needed fetches)"

definition notebook_tensors :: "(nat \<Rightarrow> real) \<Rightarrow> tf_tensor list" where
  \<comment> \<open>every tensor that \<^verbatim>\<open>src/unnamed/part_000\<close> binds to a name, in the order of the
      cells\<close>
  "notebook_tensors draws =
     [constant_scalar, constant_matrix draws, variable_matrix, variable_vector,
      placeholder_input, matrix_product, vector_sum, relu_vector,
      placeholder_output, loss, batched_vectors, alternative_relu_vector]"

definition notebook_tensors_ipynb :: "(nat \<Rightarrow> real) \<Rightarrow> tf_tensor list" where
  \<comment> \<open>the same for the ipynb variant\<close>
  "notebook_tensors_ipynb draws =
     [constant_scalar, constant_matrix draws, variable_matrix_ipynb, variable_vector_ipynb,
      placeholder_input_ipynb, matrix_product_ipynb, vector_sum_ipynb, relu_vector_ipynb,
      placeholder_output_ipynb, loss_ipynb, batched_vectors, alternative_relu_vector]"

fun all_placeholders :: "tf_tensor list \<Rightarrow> tf_tensor set" where
  "all_placeholders [] = {}"
| "all_placeholders (x # xs) = placeholders_of x \<union> all_placeholders xs"

definition rows_printed :: "float32 list \<Rightarrow> printed list" where
  \<comment> \<open>the rows that the loop prints for the loss values \<open>ls\<close>: row \<open>i\<close> shows \<open>i\<close> and
      \<open>ls ! i\<close>\<close>
  "rows_printed ls = map2 PrintRow [0..<length ls] ls"

subsection \<open>States for examples\<close>

definition example_variables :: variables where
  \<comment> \<open>a state of the two variables, used in examples\<close>
  "example_variables =
     [''my_matrix'' \<mapsto> matrix [[Finite 1, Finite 2], [Finite (- 3), Finite 1], [Finite 0, Finite (1 / 2)]],
      ''my_vector'' \<mapsto> vector [Finite 1, Finite 0, Finite (- 2)]]"

definition overflow_variables :: variables where
  \<comment> \<open>a state with small entries in which inputs near the largest \<open>float32\<close> overflow\<close>
  "overflow_variables =
     [''my_matrix'' \<mapsto> matrix [[Finite 2, Finite (- 2)], [Finite 2, Finite 0], [Finite 0, Finite 0]],
      ''my_vector'' \<mapsto> vector [Finite 0, Finite 0, Finite 0]]"

definition summing_variables :: variables where
  \<comment> \<open>a state whose first row adds the two inputs\<close>
  "summing_variables =
     [''my_matrix'' \<mapsto> matrix [[Finite 1, Finite 1], [Finite 0, Finite 0], [Finite 0, Finite 0]],
      ''my_vector'' \<mapsto> vector [Finite 0, Finite 0, Finite 0]]"

section \<open>Properties\<close>

subsection \<open>Auxiliary facts\<close>

lemmas graph_defs =
  relu_vector_def vector_sum_def matrix_product_def variable_matrix_def variable_vector_def
  placeholder_input_def placeholder_output_def loss_def

lemmas graph_ipynb_defs =
  relu_vector_ipynb_def vector_sum_ipynb_def matrix_product_ipynb_def variable_matrix_ipynb_def
  variable_vector_ipynb_def placeholder_input_ipynb_def placeholder_output_ipynb_def
  loss_ipynb_def

lemmas value_defs =
  then_do_def read_variable_def read_placeholder_def tf_reshape_def tf_matmul_def tf_add_def
  tf_subtract_def tf_pointwise_def tf_nn_relu_def tf_square_def tf_reduce_sum_def vector_def
  matrix_def scalar_def known_size_def tf_transpose_def scale_def negate_def relu_grad_def
  square_grad_def sum_grad_def ones_like_def session_run_def compatible_def wf_tensor_def
  cast32_def

lemmas float_defs =
  round32_def exponent_from.simps pow2_def round_half_even_def Let_def signed_inf_def sub32_def

lemma relu_vector_ipynb_eq: "relu_vector_ipynb = relu_vector"
  by (simp add: graph_defs graph_ipynb_defs)

lemma matrix_product_ipynb_eq: "matrix_product_ipynb = matrix_product"
  by (simp add: graph_defs graph_ipynb_defs)

lemma loss_ipynb_eq: "loss_ipynb = loss"
  by (simp add: graph_defs graph_ipynb_defs)

lemma placeholder_ipynb_eq:
  "placeholder_input_ipynb = placeholder_input" "placeholder_output_ipynb = placeholder_output"
  by (simp_all add: graph_defs graph_ipynb_defs)

lemma out_vec_ipynb_eq: "out_vec_ipynb = out_vec"
  by (rule ext) (simp add: out_vec_def out_vec_ipynb_def)

lemma run_relu_vector:
  assumes "vars ''my_matrix'' = Some (matrix [[w11, w12], [w21, w22], [w31, w32]])"
    and "vars ''my_vector'' = Some (vector [b1, b2, b3])"
  shows "session_run vars [Tensor relu_vector] [(placeholder_input, vector [x1, x2])] =
         Inr (vars,
           [Some (vector
              [relu32 (add32 (add32 (mul32 w11 (round32 x1)) (mul32 w12 (round32 x2))) b1),
               relu32 (add32 (add32 (mul32 w21 (round32 x1)) (mul32 w22 (round32 x2))) b2),
               relu32 (add32 (add32 (mul32 w31 (round32 x1)) (mul32 w32 (round32 x2))) b3)])])"
  using assms by (simp add: graph_defs value_defs upt_rec)

lemma eval_matrix_product:
  assumes "vars ''my_matrix'' = Some (matrix [[w11, w12], [w21, w22], [w31, w32]])"
    and "fed ''my_input'' = Some (vector [x1, x2])"
  shows "eval vars fed matrix_product =
         Inr (vector (mat_vec32 [[w11, w12], [w21, w22], [w31, w32]] [x1, x2]))"
  using assms by (simp add: graph_defs value_defs mat_vec32_def upt_rec)

lemma reshape_column_and_back:
  "then_do (tf_reshape (vector xs) [int (length xs), 1]) (\<lambda>column. tf_reshape column [int (length xs)])
     = Inr (vector xs)"
  by (simp add: value_defs)

lemma reshape_keeps_entries:
  "tf_reshape t dims = Inr t' \<Longrightarrow> entries t' = entries t"
  by (auto simp: tf_reshape_def Let_def split: if_splits)

lemma out_vec_value: "out_vec (vector [x1, x2]) = Inr (vector [max 0 x1, 0, 0])"
  by (simp add: out_vec_def np_multiply_def np_maximum_def np_append_def vector_def)

lemma randn_pair: "np_random_randn [2] draws pos = (vector [draws pos, draws (pos + 1)], pos + 2)"
  by (simp add: np_random_randn_def vector_def upt_rec)

subsection \<open>Single precision results that are NaN or at least 0\<close>

lemma pow2_pos: "0 < pow2 e"
  by (simp add: pow2_def)

lemma round_half_even_nonneg: "0 \<le> r \<Longrightarrow> 0 \<le> round_half_even r"
  by (auto simp: round_half_even_def Let_def)

lemma round32_not_negative:
  assumes "0 \<le> x"
  shows "not_negative (round32 x)"
proof -
  define ulp where "ulp = pow2 (exponent_from 127 \<bar>x\<bar> - 23)"
  define y where "y = of_int (round_half_even (x / ulp)) * ulp"
  have ulp: "0 < ulp" by (simp add: ulp_def pow2_pos)
  with assms have "0 \<le> x / ulp" by simp
  then have "0 \<le> round_half_even (x / ulp)" by (rule round_half_even_nonneg)
  with ulp have y: "0 \<le> y" by (simp add: y_def)
  have r: "round32 x = (if pow2 128 \<le> \<bar>y\<bar> then (if 0 < x then PosInf else NegInf) else Finite y)"
    by (simp add: round32_def Let_def ulp_def y_def)
  show ?thesis
  proof (cases "pow2 128 \<le> \<bar>y\<bar>")
    case True
    have "x \<noteq> 0"
    proof
      assume "x = 0"
      then have "y = 0" by (simp add: y_def round_half_even_def)
      with True pow2_pos [of 128] show False by simp
    qed
    with assms True r show ?thesis by simp
  next
    case False
    with r y show ?thesis by simp
  qed
qed

lemma not_negative_square [simp]: "not_negative (mul32 v v)"
  by (cases v) (simp_all add: round32_not_negative)

lemma not_negative_add [simp]:
  "not_negative a \<Longrightarrow> not_negative b \<Longrightarrow> not_negative (add32 a b)"
  by (cases a; cases b) (simp_all add: round32_not_negative)

lemma not_negative_relu [simp]: "not_negative (relu32 v)"
  by (cases v) simp_all

lemma not_negative_iff: "not_negative v \<longleftrightarrow> at_least_zero v \<or> v = NaN"
  by (cases v) simp_all

subsection \<open>States and steps\<close>

lemma list6: "length xs = 6 \<Longrightarrow> \<exists>a b c d e f. xs = [a, b, c, d, e, f]"
  by (auto simp: eval_nat_numeral length_Suc_conv)

lemma list3: "length xs = 3 \<Longrightarrow> \<exists>a b c. xs = [a, b, c]"
  by (auto simp: eval_nat_numeral length_Suc_conv)

lemma list2: "length xs = 2 \<Longrightarrow> \<exists>a b. xs = [a, b]"
  by (auto simp: eval_nat_numeral length_Suc_conv)

lemma has_shape_matrix:
  assumes "has_shape [3, 2] w"
  shows "\<exists>w11 w12 w21 w22 w31 w32. w = matrix [[w11, w12], [w21, w22], [w31, w32]]"
proof -
  from assms have s: "shape w = [3, 2]" and l: "length (entries w) = 6"
    by (simp_all add: has_shape_def wf_tensor_def)
  from list6 [OF l] obtain a b c d e f where "entries w = [a, b, c, d, e, f]" by blast
  with s have "w = matrix [[a, b], [c, d], [e, f]]"
    by (simp add: matrix_def)
  then show ?thesis by blast
qed

lemma has_shape_vector3:
  assumes "has_shape [3] b"
  shows "\<exists>b1 b2 b3. b = vector [b1, b2, b3]"
proof -
  from assms have s: "shape b = [3]" and l: "length (entries b) = 3"
    by (simp_all add: has_shape_def wf_tensor_def)
  from list3 [OF l] obtain x y z where "entries b = [x, y, z]" by blast
  with s have "b = vector [x, y, z]"
    by (simp add: vector_def)
  then show ?thesis by blast
qed

lemma has_shape_vector2:
  assumes "has_shape [2] x"
  shows "\<exists>x1 x2. x = vector [x1, x2]"
proof -
  from assms have s: "shape x = [2]" and l: "length (entries x) = 2"
    by (simp_all add: has_shape_def wf_tensor_def)
  from list2 [OF l] obtain a b where "entries x = [a, b]" by blast
  with s have "x = vector [a, b]"
    by (simp add: vector_def)
  then show ?thesis by blast
qed

lemma initialised_values:
  assumes "initialised vars"
  shows "\<exists>w11 w12 w21 w22 w31 w32 b1 b2 b3.
           vars ''my_matrix'' = Some (matrix [[w11, w12], [w21, w22], [w31, w32]]) \<and>
           vars ''my_vector'' = Some (vector [b1, b2, b3])"
proof -
  from assms obtain w b where w: "vars ''my_matrix'' = Some w" "has_shape [3, 2] w"
    and b: "vars ''my_vector'' = Some b" "has_shape [3] b"
    by (auto simp: initialised_def split: option.splits)
  from has_shape_matrix [OF w(2)] has_shape_vector3 [OF b(2)] w(1) b(1)
  show ?thesis by blast
qed

lemma run_step_values:
  assumes "vars ''my_matrix'' = Some (matrix [[w11, w12], [w21, w22], [w31, w32]])"
    and "vars ''my_vector'' = Some (vector [b1, b2, b3])"
  shows "\<exists>vars' l.
           session_run vars [Operation (Minimize rate loss), Tensor loss]
             [(placeholder_input, vector [x1, x2]), (placeholder_output, vector [y1, y2, y3])] =
             Inr (vars', [None, Some (scalar l)]) \<and>
           initialised vars' \<and> not_negative l"
  using assms by (simp add: graph_defs value_defs upt_rec initialised_def has_shape_def)

lemma run_step:
  assumes "initialised vars"
  shows "\<exists>vars' l.
           session_run vars [Operation (Minimize rate loss), Tensor loss]
             (training_feed draws pos) = Inr (vars', [None, Some (scalar l)]) \<and>
           initialised vars' \<and> not_negative l"
proof -
  from initialised_values [OF assms] obtain w11 w12 w21 w22 w31 w32 b1 b2 b3 where
    "vars ''my_matrix'' = Some (matrix [[w11, w12], [w21, w22], [w31, w32]])"
    "vars ''my_vector'' = Some (vector [b1, b2, b3])" by blast
  from run_step_values [OF this] show ?thesis
    unfolding training_feed_def by blast
qed

lemma descent_iteration_run:
  "descent_iteration rate draws i nb =
     then_do (session_run (session nb) [Operation (Minimize rate loss), Tensor loss]
                (training_feed draws (generator nb)))
       (\<lambda>(vars', results).
           case results of
             [_, Some loss_value] \<Rightarrow>
               (case entries loss_value of
                  [l] \<Rightarrow> Inr \<lparr>generator = generator nb + 2, session = vars',
                              stdout = stdout nb @ [PrintRow i l],
                              calls = calls nb @
                                [([Operation (Minimize rate loss), Tensor loss],
                                  [placeholder_input, placeholder_output])]\<rparr>
                | _ \<Rightarrow> Inl (TypeError ''format''))
           | _ \<Rightarrow> Inl (ValueError ''unpack''))"
  by (auto simp: descent_iteration_def run_def randn_pair out_vec_value training_feed_def
      then_do_def split: sum.splits list.splits option.splits)

lemma descent_iteration_ok:
  assumes "initialised (session nb)"
  shows "\<exists>vars' l.
           session_run (session nb) [Operation (Minimize rate loss), Tensor loss]
             (training_feed draws (generator nb)) = Inr (vars', [None, Some (scalar l)]) \<and>
           descent_iteration rate draws i nb =
             Inr \<lparr>generator = generator nb + 2, session = vars',
                  stdout = stdout nb @ [PrintRow i l],
                  calls = calls nb @
                    [([Operation (Minimize rate loss), Tensor loss],
                      [placeholder_input, placeholder_output])]\<rparr> \<and>
           initialised vars' \<and> not_negative l"
proof -
  from run_step [OF assms, of rate draws "generator nb"] obtain vars' l where
    r: "session_run (session nb) [Operation (Minimize rate loss), Tensor loss]
             (training_feed draws (generator nb)) = Inr (vars', [None, Some (scalar l)])"
    and i: "initialised vars'" "not_negative l" by blast
  have "descent_iteration rate draws i nb =
             Inr \<lparr>generator = generator nb + 2, session = vars',
                  stdout = stdout nb @ [PrintRow i l],
                  calls = calls nb @
                    [([Operation (Minimize rate loss), Tensor loss],
                      [placeholder_input, placeholder_output])]\<rparr>"
    by (simp add: descent_iteration_run r then_do_def scalar_def)
  with r i show ?thesis by blast
qed

lemma for_range_append:
  "for_range (xs @ ys) body s = then_do (for_range xs body s) (for_range ys body)"
  by (induction xs arbitrary: s) (auto simp: then_do_def split: sum.splits)

lemma for_range_Suc:
  "for_range [0..<Suc n] body s = then_do (for_range [0..<n] body s) (body n)"
  by (simp add: for_range_append then_do_def split: sum.splits)

lemma rows_printed_snoc: "rows_printed (ls @ [l]) = rows_printed ls @ [PrintRow (length ls) l]"
  by (simp add: rows_printed_def)

lemma example_variables_initialised:
  "initialised example_variables" "initialised overflow_variables" "initialised summing_variables"
  by (simp_all add: example_variables_def overflow_variables_def summing_variables_def
      initialised_def has_shape_def wf_tensor_def matrix_def vector_def)

lemma exact_entry:
  assumes "no_rounding a1 a2 c x1 x2"
  shows "add32 (add32 (mul32 (Finite a1) (round32 x1)) (mul32 (Finite a2) (round32 x2))) (Finite c) =
         Finite (a1 * x1 + a2 * x2 + c)"
  using assms by (simp add: no_rounding_def exact32_def)

lemma exact_product:
  assumes "no_rounding a1 a2 0 x1 x2"
  shows "add32 (mul32 (Finite a1) (round32 x1)) (mul32 (Finite a2) (round32 x2)) =
         Finite (a1 * x1 + a2 * x2)"
  using assms by (simp add: no_rounding_def exact32_def)

text \<open>
  C1 as stated, that \<open>relu_vector\<close> is the componentwise \<open>max 0 (W x + b)\<close> for every input,
  fails in single precision: with the first row \<open>(1, 2)\<close> of \<open>W\<close>, \<open>b 1 = 1\<close> and the input
  \<open>(16777217, 0)\<close> the first entry is 16777216, not 16777218.
\<close>

theorem relu_vector_rounds:
  "session_run example_variables [Tensor relu_vector]
     [(placeholder_input, vector [16777217, 0])] =
     Inr (example_variables, [Some (vector [Finite 16777216, Finite 0, Finite 0])]) \<and>
   max 0 (1 * 16777217 + 2 * 0 + 1) = (16777218 :: real)"
proof -
  have "session_run example_variables [Tensor relu_vector]
     [(placeholder_input, vector [16777217, 0])] =
     Inr (example_variables, [Some (vector [Finite 16777216, Finite 0, Finite 0])])"
    by (subst run_relu_vector [of _ "Finite 1" "Finite 2" "Finite (- 3)" "Finite 1" "Finite 0"
          "Finite (1 / 2)" "Finite 1" "Finite 0" "Finite (- 2)"])
      (simp_all add: example_variables_def float_defs)
  then show ?thesis by simp
qed

text \<open>
  C1, amended. For every value of the 3x2 variable matrix \<open>W\<close> and of the variable vector \<open>b\<close>
  and every input \<open>x = (x1, x2)\<close> fed to \<open>placeholder_input\<close>, running \<open>relu_vector\<close> returns the
  componentwise ReLU of \<open>W x + b\<close> computed in single precision: the input is converted to
  \<open>float32\<close> and every product and sum is rounded. The variables stay as they are, and the
  tensor is built as the ReLU of the sum of \<open>b\<close> and the reshaped matrix product of \<open>W\<close> and
  the input reshaped to \<open>[2, 1]\<close>. An entry is the exact \<open>max 0 (w1 * x1 + w2 * x2 + b)\<close>
  when nothing is rounded on the way. This holds in both variants of the notebook.
\<close>

theorem relu_vector_is_relu_layer:
  assumes "vars ''my_matrix'' = Some (matrix [[w11, w12], [w21, w22], [w31, w32]])"
    and "vars ''my_vector'' = Some (vector [b1, b2, b3])"
  shows "relu_vector =
           Relu (Add (Reshape (MatMul (Variable ''my_matrix'' [3, 2])
                                 (Reshape (Placeholder ''my_input'' (Some [Some 2])) [2, 1])) [3])
                     (Variable ''my_vector'' [3])) \<and>
         relu_vector_ipynb = relu_vector \<and>
         session_run vars [Tensor relu_vector] [(placeholder_input, vector [x1, x2])] =
           Inr (vars,
             [Some (vector
                [relu32 (add32 (add32 (mul32 w11 (round32 x1)) (mul32 w12 (round32 x2))) b1),
                 relu32 (add32 (add32 (mul32 w21 (round32 x1)) (mul32 w22 (round32 x2))) b2),
                 relu32 (add32 (add32 (mul32 w31 (round32 x1)) (mul32 w32 (round32 x2))) b3)])]) \<and>
         session_run vars [Tensor relu_vector_ipynb] [(placeholder_input_ipynb, vector [x1, x2])] =
           Inr (vars,
             [Some (vector
                [relu32 (add32 (add32 (mul32 w11 (round32 x1)) (mul32 w12 (round32 x2))) b1),
                 relu32 (add32 (add32 (mul32 w21 (round32 x1)) (mul32 w22 (round32 x2))) b2),
                 relu32 (add32 (add32 (mul32 w31 (round32 x1)) (mul32 w32 (round32 x2))) b3)])]) \<and>
         (no_rounding a1 a2 c x1 x2 \<longrightarrow>
            relu32 (add32 (add32 (mul32 (Finite a1) (round32 x1)) (mul32 (Finite a2) (round32 x2)))
                      (Finite c)) =
            Finite (max 0 (a1 * x1 + a2 * x2 + c)))"
proof -
  have "relu_vector =
           Relu (Add (Reshape (MatMul (Variable ''my_matrix'' [3, 2])
                                 (Reshape (Placeholder ''my_input'' (Some [Some 2])) [2, 1])) [3])
                     (Variable ''my_vector'' [3]))"
    by (simp add: graph_defs)
  moreover have "no_rounding a1 a2 c x1 x2 \<longrightarrow>
            relu32 (add32 (add32 (mul32 (Finite a1) (round32 x1)) (mul32 (Finite a2) (round32 x2)))
                      (Finite c)) =
            Finite (max 0 (a1 * x1 + a2 * x2 + c))"
    by (simp add: exact_entry)
  ultimately show ?thesis
    using run_relu_vector [OF assms, of x1 x2]
    by (simp only: relu_vector_ipynb_eq placeholder_ipynb_eq simp_thms)
qed

theorem relu_vector_is_relu_layer_witness:
  "no_rounding 1 2 1 1 2 \<and>
   session_run example_variables [Tensor relu_vector] [(placeholder_input, vector [1, 2])] =
     Inr (example_variables, [Some (vector [Finite 6, Finite 0, Finite 0])])"
proof -
  have exact: "no_rounding 1 2 1 1 2"
    by (simp add: no_rounding_def exact32_def float_defs)
  have vars: "example_variables ''my_matrix'' =
      Some (matrix [[Finite 1, Finite 2], [Finite (- 3), Finite 1], [Finite 0, Finite (1 / 2)]])"
    "example_variables ''my_vector'' = Some (vector [Finite 1, Finite 0, Finite (- 2)])"
    by (simp_all add: example_variables_def)
  from relu_vector_is_relu_layer [OF vars, of 1 2 1 2 1] exact
  have "session_run example_variables [Tensor relu_vector] [(placeholder_input, vector [1, 2])] =
     Inr (example_variables, [Some (vector [Finite 6, Finite 0, Finite 0])])"
    by (simp add: float_defs)
  with exact show ?thesis by simp
qed

lemma concat_nth_uniform:
  assumes "\<forall>r \<in> set rows. length r = n" and "i < length rows" and "k < n"
  shows "concat rows ! (i * n + k) = rows ! i ! k"
  using assms
proof (induction rows arbitrary: i)
  case Nil
  then show ?case by simp
next
  case (Cons r rows)
  show ?case
  proof (cases i)
    case 0
    with Cons.prems show ?thesis by (simp add: nth_append)
  next
    case (Suc j)
    with Cons.prems have "concat rows ! (j * n + k) = rows ! j ! k"
      by (intro Cons.IH) auto
    with Suc Cons.prems show ?thesis by (simp add: nth_append)
  qed
qed

text \<open>
  For a matrix of any size, given by its rows, the column reshape, the matrix multiplication and
  the reshape back compute the matrix-vector product in single precision.
\<close>

lemma matmul_of_column:
  assumes "rows \<noteq> []" and "\<forall>r \<in> set rows. length r = length x"
  shows "then_do (tf_reshape (vector x) [int (length x), 1]) (\<lambda>column.
         then_do (tf_matmul (matrix rows) column) (\<lambda>product.
           tf_reshape product [int (length rows)])) = Inr (vector (mat_vec32 rows x))"
proof -
  let ?n = "length x" and ?m = "length rows"
  have column: "tf_reshape (vector x) [int ?n, 1] = Inr \<lparr>shape = [?n, 1], entries = x\<rparr>"
    by (simp add: tf_reshape_def vector_def)
  from assms have shape: "shape (matrix rows) = [?m, ?n]"
    by (cases rows) (simp_all add: matrix_def)
  have entry: "entries (matrix rows) ! (i * ?n + k) = rows ! i ! k" if "i < ?m" "k < ?n" for i k
    using concat_nth_uniform [OF assms(2) that] by (simp add: matrix_def)
  have "map (\<lambda>i. sum32 (map (\<lambda>k. mul32 (entries (matrix rows) ! (i * ?n + k)) (x ! k)) [0..<?n]))
          [0..<?m] =
        map (\<lambda>i. sum32 (map (\<lambda>k. mul32 (rows ! i ! k) (x ! k)) [0..<?n])) [0..<?m]"
    by (intro map_cong refl arg_cong [where f = sum32]) (simp add: entry)
  also have "\<dots> = map (\<lambda>row. sum32 (map (\<lambda>k. mul32 (row ! k) (x ! k)) [0..<?n]))
                     (map (\<lambda>i. rows ! i) [0..<?m])"
    by (simp add: comp_def)
  also have "\<dots> = mat_vec32 rows x"
    by (simp add: mat_vec32_def map_nth)
  finally have product: "tf_matmul (matrix rows) \<lparr>shape = [?n, 1], entries = x\<rparr> =
      Inr \<lparr>shape = [?m, 1], entries = mat_vec32 rows x\<rparr>"
    by (simp add: tf_matmul_def shape comp_def)
  have last: "tf_reshape \<lparr>shape = [?m, 1], entries = mat_vec32 rows x\<rparr> [int ?m] =
      Inr (vector (mat_vec32 rows x))"
    by (simp add: tf_reshape_def vector_def mat_vec32_def)
  show ?thesis
    by (simp only: then_do_def column product last sum.case)
qed

lemma run_matrix_product:
  assumes "vars ''my_matrix'' = Some (matrix [[w11, w12], [w21, w22], [w31, w32]])"
  shows "session_run vars [Tensor matrix_product] [(placeholder_input, vector [x1, x2])] =
         Inr (vars,
           [Some (vector [add32 (mul32 w11 (round32 x1)) (mul32 w12 (round32 x2)),
                          add32 (mul32 w21 (round32 x1)) (mul32 w22 (round32 x2)),
                          add32 (mul32 w31 (round32 x1)) (mul32 w32 (round32 x2))])])"
  using assms by (simp add: graph_defs value_defs upt_rec)

lemma mat_vec32_entries:
  "mat_vec32 [[w11, w12], [w21, w22], [w31, w32]] [x1, x2] =
     [add32 (mul32 w11 x1) (mul32 w12 x2), add32 (mul32 w21 x1) (mul32 w22 x2),
      add32 (mul32 w31 x1) (mul32 w32 x2)]"
  by (simp add: mat_vec32_def upt_rec)

text \<open>
  C7 as stated, that the reshaped product is exactly the mathematical product \<open>W x\<close>, fails
  in single precision: with the first row \<open>(1, 1)\<close> of \<open>W\<close> and the input \<open>(16777216, 1)\<close>
  the first entry is 16777216, not 16777217.
\<close>

theorem matrix_product_rounds:
  "session_run summing_variables [Tensor matrix_product]
     [(placeholder_input, vector [16777216, 1])] =
     Inr (summing_variables, [Some (vector [Finite 16777216, Finite 0, Finite 0])]) \<and>
   mat_vec [[1, 1], [0, 0], [0, 0]] [16777216, 1] = [16777217, 0, 0]"
proof -
  have "session_run summing_variables [Tensor matrix_product]
     [(placeholder_input, vector [16777216, 1])] =
     Inr (summing_variables, [Some (vector [Finite 16777216, Finite 0, Finite 0])])"
    by (subst run_matrix_product [of _ "Finite 1" "Finite 1" "Finite 0" "Finite 0" "Finite 0"
          "Finite 0"])
      (simp_all add: summing_variables_def float_defs)
  moreover have "mat_vec [[1, 1], [0, 0], [0, 0]] [16777216, 1] = [16777217, 0, 0]"
    by (simp add: mat_vec_def upt_rec)
  ultimately show ?thesis by simp
qed

text \<open>
  C7, amended. For every 2-vector \<open>x\<close> and every 3x2 matrix \<open>W\<close>, reshaping \<open>x\<close> to \<open>[2, 1]\<close>,
  multiplying by \<open>W\<close> and reshaping the result to \<open>[3]\<close> gives the matrix-vector product of
  \<open>W\<close> and \<open>x\<close> as a 3-vector, computed in single precision: the input is converted to
  \<open>float32\<close> and every product and sum is rounded. An entry is the exact
  \<open>w1 * x1 + w2 * x2\<close> when nothing is rounded on the way. Reshaping a vector to a column and
  back returns the vector, and the column has the entries of the vector. This holds in both
  variants.
\<close>

theorem matrix_product_value:
  assumes "vars ''my_matrix'' = Some (matrix [[w11, w12], [w21, w22], [w31, w32]])"
  shows "session_run vars [Tensor matrix_product] [(placeholder_input, vector [x1, x2])] =
           Inr (vars, [Some (vector (mat_vec32 [[w11, w12], [w21, w22], [w31, w32]]
                                        [round32 x1, round32 x2]))]) \<and>
         session_run vars [Tensor matrix_product_ipynb] [(placeholder_input_ipynb, vector [x1, x2])] =
           Inr (vars, [Some (vector (mat_vec32 [[w11, w12], [w21, w22], [w31, w32]]
                                        [round32 x1, round32 x2]))]) \<and>
         mat_vec32 [[w11, w12], [w21, w22], [w31, w32]] [round32 x1, round32 x2] =
           [add32 (mul32 w11 (round32 x1)) (mul32 w12 (round32 x2)),
            add32 (mul32 w21 (round32 x1)) (mul32 w22 (round32 x2)),
            add32 (mul32 w31 (round32 x1)) (mul32 w32 (round32 x2))] \<and>
         (no_rounding a1 a2 0 x1 x2 \<longrightarrow>
            add32 (mul32 (Finite a1) (round32 x1)) (mul32 (Finite a2) (round32 x2)) =
            Finite (a1 * x1 + a2 * x2)) \<and>
         mat_vec [[a11, a12], [a21, a22], [a31, a32]] [x1, x2] =
           [a11 * x1 + a12 * x2, a21 * x1 + a22 * x2, a31 * x1 + a32 * x2] \<and>
         tf_reshape (vector [v1, v2]) [2, 1] = Inr \<lparr>shape = [2, 1], entries = [v1, v2]\<rparr> \<and>
         then_do (tf_reshape (vector [v1, v2]) [2, 1]) (\<lambda>column. tf_reshape column [2]) =
           Inr (vector [v1, v2])"
proof -
  have "session_run vars [Tensor matrix_product] [(placeholder_input, vector [x1, x2])] =
          Inr (vars, [Some (vector (mat_vec32 [[w11, w12], [w21, w22], [w31, w32]]
                                        [round32 x1, round32 x2]))])"
    using assms by (simp add: run_matrix_product mat_vec32_entries)
  moreover have "mat_vec32 [[w11, w12], [w21, w22], [w31, w32]] [round32 x1, round32 x2] =
           [add32 (mul32 w11 (round32 x1)) (mul32 w12 (round32 x2)),
            add32 (mul32 w21 (round32 x1)) (mul32 w22 (round32 x2)),
            add32 (mul32 w31 (round32 x1)) (mul32 w32 (round32 x2))]"
    by (rule mat_vec32_entries)
  moreover have "no_rounding a1 a2 0 x1 x2 \<longrightarrow>
            add32 (mul32 (Finite a1) (round32 x1)) (mul32 (Finite a2) (round32 x2)) =
            Finite (a1 * x1 + a2 * x2)"
    by (simp add: exact_product)
  moreover have "mat_vec [[a11, a12], [a21, a22], [a31, a32]] [x1, x2] =
           [a11 * x1 + a12 * x2, a21 * x1 + a22 * x2, a31 * x1 + a32 * x2]"
    by (simp add: mat_vec_def upt_rec)
  moreover have "tf_reshape (vector [v1, v2]) [2, 1] = Inr \<lparr>shape = [2, 1], entries = [v1, v2]\<rparr>"
    by (simp add: tf_reshape_def vector_def)
  moreover have "then_do (tf_reshape (vector [v1, v2]) [2, 1]) (\<lambda>column. tf_reshape column [2]) =
           Inr (vector [v1, v2])"
    using reshape_column_and_back [of "[v1, v2]"] by simp
  ultimately show ?thesis
    by (simp only: matrix_product_ipynb_eq placeholder_ipynb_eq simp_thms)
qed

theorem matrix_product_value_witness:
  "no_rounding 1 2 0 1 2 \<and>
   session_run example_variables [Tensor matrix_product] [(placeholder_input, vector [1, 2])] =
     Inr (example_variables, [Some (vector [Finite 5, Finite (- 1), Finite 1])])"
proof -
  have exact: "no_rounding 1 2 0 1 2"
    by (simp add: no_rounding_def exact32_def float_defs)
  have vars: "example_variables ''my_matrix'' =
      Some (matrix [[Finite 1, Finite 2], [Finite (- 3), Finite 1], [Finite 0, Finite (1 / 2)]])"
    by (simp add: example_variables_def)
  from matrix_product_value [of example_variables "Finite 1" "Finite 2" "Finite (- 3)" "Finite 1"
      "Finite 0" "Finite (1 / 2)" 1 2 1 2 0 0 0 0 0 0 "0::real" "0::real"] vars exact
  have "session_run example_variables [Tensor matrix_product] [(placeholder_input, vector [1, 2])] =
     Inr (example_variables, [Some (vector [Finite 5, Finite (- 1), Finite 1])])"
    by (simp add: float_defs)
  with exact show ?thesis by simp
qed

text \<open>
  C8. For every input vector \<open>(x1, x2)\<close>, and so for every one sampled in the training loop,
  the target \<open>np.maximum(0, np.append(in_vec, 0)) * [1, 0, 0]\<close> is \<open>(max 0 x1, 0, 0)\<close>, in
  both variants.
\<close>

theorem out_vec_value_of_input:
  "out_vec (vector [x1, x2]) = Inr (vector [max 0 x1, 0, 0]) \<and>
   out_vec_ipynb (vector [x1, x2]) = Inr (vector [max 0 x1, 0, 0]) \<and>
   out_vec (fst (np_random_randn [2] draws pos)) = Inr (vector [max 0 (draws pos), 0, 0]) \<and>
   out_vec_ipynb (fst (np_random_randn [2] draws pos)) = Inr (vector [max 0 (draws pos), 0, 0])"
  by (simp add: out_vec_ipynb_eq out_vec_value randn_pair)

theorem out_vec_value_of_input_witness:
  "out_vec (vector [3, -2]) = Inr (vector [3, 0, 0]) \<and>
   out_vec (vector [-3, 2]) = Inr (vector [0, 0, 0])"
  using out_vec_value_of_input [of 3 "-2" real 0] out_vec_value_of_input [of "-3" 2 real 0]
  by simp

lemma gradient_descent_step_ipynb_eq: "gradient_descent_step_ipynb = Minimize 0.07 loss"
  by (simp add: gradient_descent_step_ipynb_def loss_ipynb_eq)

lemma training_iteration_eq: "training_iteration = descent_iteration 0.1"
  by (intro ext) (simp add: training_iteration_def descent_iteration_def gradient_descent_step_def)

lemma training_iteration_ipynb_eq: "training_iteration_ipynb = descent_iteration 0.07"
  by (intro ext)
    (simp add: training_iteration_ipynb_def descent_iteration_def gradient_descent_step_ipynb_eq
      loss_ipynb_eq placeholder_ipynb_eq out_vec_ipynb_eq)

lemma training_cell_eq: "training_cell = descent_loop 0.1 150"
  by (intro ext) (simp only: training_cell_def descent_loop_def training_iteration_eq)

lemma training_cell_ipynb_eq: "training_cell_ipynb = descent_loop 0.07 15"
  by (intro ext) (simp only: training_cell_ipynb_def descent_loop_def training_iteration_ipynb_eq)

text \<open>What \<open>n\<close> iterations do to a state whose variables are initialised.\<close>

lemma iterations_run:
  assumes "initialised (session nb)"
  shows "\<exists>nb' ls.
           for_range [0..<n] (descent_iteration rate draws) nb = Inr nb' \<and>
           initialised (session nb') \<and>
           generator nb' = generator nb + 2 * n \<and>
           length ls = n \<and>
           stdout nb' = stdout nb @ rows_printed ls \<and>
           calls nb' = calls nb @
             replicate n ([Operation (Minimize rate loss), Tensor loss],
                          [placeholder_input, placeholder_output]) \<and>
           list_all not_negative ls \<and>
           (\<forall>i<n. \<exists>nb_i vars'.
              for_range [0..<i] (descent_iteration rate draws) nb = Inr nb_i \<and>
              session_run (session nb_i) [Operation (Minimize rate loss), Tensor loss]
                (training_feed draws (generator nb + 2 * i)) =
                Inr (vars', [None, Some (scalar (ls ! i))]))"
proof (induction n)
  case 0
  show ?case using assms by (simp add: rows_printed_def)
next
  case (Suc n)
  then obtain nb' ls where
    run: "for_range [0..<n] (descent_iteration rate draws) nb = Inr nb'"
    and init: "initialised (session nb')"
    and gen: "generator nb' = generator nb + 2 * n"
    and len: "length ls = n"
    and out: "stdout nb' = stdout nb @ rows_printed ls"
    and made: "calls nb' = calls nb @
             replicate n ([Operation (Minimize rate loss), Tensor loss],
                          [placeholder_input, placeholder_output])"
    and pos: "list_all not_negative ls"
    and trace: "\<forall>i<n. \<exists>nb_i vars'.
              for_range [0..<i] (descent_iteration rate draws) nb = Inr nb_i \<and>
              session_run (session nb_i) [Operation (Minimize rate loss), Tensor loss]
                (training_feed draws (generator nb + 2 * i)) =
                Inr (vars', [None, Some (scalar (ls ! i))])" by blast
  from descent_iteration_ok [OF init, of rate draws n] obtain vars' l where
    fetched: "session_run (session nb') [Operation (Minimize rate loss), Tensor loss]
             (training_feed draws (generator nb')) = Inr (vars', [None, Some (scalar l)])"
    and step: "descent_iteration rate draws n nb' =
             Inr \<lparr>generator = generator nb' + 2, session = vars',
                  stdout = stdout nb' @ [PrintRow n l],
                  calls = calls nb' @
                    [([Operation (Minimize rate loss), Tensor loss],
                      [placeholder_input, placeholder_output])]\<rparr>"
    and init': "initialised vars'" and l: "not_negative l" by blast
  let ?nb = "\<lparr>generator = generator nb' + 2, session = vars',
                  stdout = stdout nb' @ [PrintRow n l],
                  calls = calls nb' @
                    [([Operation (Minimize rate loss), Tensor loss],
                      [placeholder_input, placeholder_output])]\<rparr>"
  have "for_range [0..<Suc n] (descent_iteration rate draws) nb = Inr ?nb"
    by (simp only: for_range_Suc run step then_do_def sum.case)
  moreover have "initialised (session ?nb)" using init' by simp
  moreover have "generator ?nb = generator nb + 2 * Suc n" using gen by simp
  moreover have "length (ls @ [l]) = Suc n" using len by simp
  moreover have "stdout ?nb = stdout nb @ rows_printed (ls @ [l])"
    using out len by (simp add: rows_printed_snoc)
  moreover have "calls ?nb = calls nb @
             replicate (Suc n) ([Operation (Minimize rate loss), Tensor loss],
                          [placeholder_input, placeholder_output])"
    using made by (simp add: replicate_append_same)
  moreover have "list_all not_negative (ls @ [l])" using pos l by simp
  moreover have "\<forall>i<Suc n. \<exists>nb_i vars'.
              for_range [0..<i] (descent_iteration rate draws) nb = Inr nb_i \<and>
              session_run (session nb_i) [Operation (Minimize rate loss), Tensor loss]
                (training_feed draws (generator nb + 2 * i)) =
                Inr (vars', [None, Some (scalar ((ls @ [l]) ! i))])"
  proof (intro allI impI)
    fix i assume "i < Suc n"
    then consider "i < n" | "i = n" by linarith
    then show "\<exists>nb_i vars'.
              for_range [0..<i] (descent_iteration rate draws) nb = Inr nb_i \<and>
              session_run (session nb_i) [Operation (Minimize rate loss), Tensor loss]
                (training_feed draws (generator nb + 2 * i)) =
                Inr (vars', [None, Some (scalar ((ls @ [l]) ! i))])"
    proof cases
      case 1
      with trace len show ?thesis by (simp add: nth_append)
    next
      case 2
      with run fetched gen len show ?thesis by (simp add: nth_append)
    qed
  qed
  ultimately show ?case by blast
qed

lemma descent_loop_run:
  assumes "initialised (session nb)"
  shows "\<exists>nb' ls.
           descent_loop rate n draws nb = Inr nb' \<and>
           initialised (session nb') \<and>
           generator nb' = generator nb + 2 * n \<and>
           length ls = n \<and>
           stdout nb' = stdout nb @ PrintHeader # rows_printed ls \<and>
           calls nb' = calls nb @
             replicate n ([Operation (Minimize rate loss), Tensor loss],
                          [placeholder_input, placeholder_output]) \<and>
           list_all not_negative ls \<and>
           (\<forall>i<n. \<exists>nb_i vars'.
              for_range [0..<i] (descent_iteration rate draws)
                (nb\<lparr>stdout := stdout nb @ [PrintHeader]\<rparr>) = Inr nb_i \<and>
              session_run (session nb_i) [Operation (Minimize rate loss), Tensor loss]
                (training_feed draws (generator nb + 2 * i)) =
                Inr (vars', [None, Some (scalar (ls ! i))]))"
  using iterations_run [of "nb\<lparr>stdout := stdout nb @ [PrintHeader]\<rparr>" n rate draws] assms
  by (simp add: descent_loop_def)

text \<open>
  C2. From a session whose variables are initialised, the training loop of
  \<^verbatim>\<open>src/unnamed/part_000\<close> runs 150 iterations and the one of the ipynb variant 15: after
  the header it prints one row for each index \<open>0, 1, ..., N - 1\<close>, in this order, and the row
  of index \<open>i\<close> shows the loss that \<open>session.run\<close> returned in iteration \<open>i\<close>; every
  iteration draws one input pair.
\<close>

theorem training_loop_rows:
  assumes "initialised (session nb)"
  shows "(\<exists>nb' ls.
            training_cell draws nb = Inr nb' \<and>
            length ls = 150 \<and>
            generator nb' = generator nb + 2 * 150 \<and>
            stdout nb' = stdout nb @ PrintHeader # map2 PrintRow [0..<150] ls \<and>
            (\<forall>i<150. \<exists>nb_i vars'.
               for_range [0..<i] (training_iteration draws)
                 (nb\<lparr>stdout := stdout nb @ [PrintHeader]\<rparr>) = Inr nb_i \<and>
               session_run (session nb_i) [Operation gradient_descent_step, Tensor loss]
                 (training_feed draws (generator nb + 2 * i)) =
                 Inr (vars', [None, Some (scalar (ls ! i))]))) \<and>
         (\<exists>nb' ls.
            training_cell_ipynb draws nb = Inr nb' \<and>
            length ls = 15 \<and>
            generator nb' = generator nb + 2 * 15 \<and>
            stdout nb' = stdout nb @ PrintHeader # map2 PrintRow [0..<15] ls \<and>
            (\<forall>i<15. \<exists>nb_i vars'.
               for_range [0..<i] (training_iteration_ipynb draws)
                 (nb\<lparr>stdout := stdout nb @ [PrintHeader]\<rparr>) = Inr nb_i \<and>
               session_run (session nb_i) [Operation gradient_descent_step_ipynb, Tensor loss_ipynb]
                 (training_feed draws (generator nb + 2 * i)) =
                 Inr (vars', [None, Some (scalar (ls ! i))])))"
proof
  from descent_loop_run [OF assms, of "0.1" 150 draws] obtain nb' ls where
    "descent_loop 0.1 150 draws nb = Inr nb'" "length ls = 150"
    "generator nb' = generator nb + 2 * 150"
    "stdout nb' = stdout nb @ PrintHeader # rows_printed ls"
    "\<forall>i<150. \<exists>nb_i vars'.
              for_range [0..<i] (descent_iteration 0.1 draws)
                (nb\<lparr>stdout := stdout nb @ [PrintHeader]\<rparr>) = Inr nb_i \<and>
              session_run (session nb_i) [Operation (Minimize 0.1 loss), Tensor loss]
                (training_feed draws (generator nb + 2 * i)) =
                Inr (vars', [None, Some (scalar (ls ! i))])"
    by blast
  then show "\<exists>nb' ls.
            training_cell draws nb = Inr nb' \<and>
            length ls = 150 \<and>
            generator nb' = generator nb + 2 * 150 \<and>
            stdout nb' = stdout nb @ PrintHeader # map2 PrintRow [0..<150] ls \<and>
            (\<forall>i<150. \<exists>nb_i vars'.
               for_range [0..<i] (training_iteration draws)
                 (nb\<lparr>stdout := stdout nb @ [PrintHeader]\<rparr>) = Inr nb_i \<and>
               session_run (session nb_i) [Operation gradient_descent_step, Tensor loss]
                 (training_feed draws (generator nb + 2 * i)) =
                 Inr (vars', [None, Some (scalar (ls ! i))]))"
    unfolding training_cell_eq training_iteration_eq gradient_descent_step_def rows_printed_def
    by (intro exI [of _ nb'] exI [of _ ls]) simp
next
  from descent_loop_run [OF assms, of "0.07" 15 draws] obtain nb' ls where
    "descent_loop 0.07 15 draws nb = Inr nb'" "length ls = 15"
    "generator nb' = generator nb + 2 * 15"
    "stdout nb' = stdout nb @ PrintHeader # rows_printed ls"
    "\<forall>i<15. \<exists>nb_i vars'.
              for_range [0..<i] (descent_iteration 0.07 draws)
                (nb\<lparr>stdout := stdout nb @ [PrintHeader]\<rparr>) = Inr nb_i \<and>
              session_run (session nb_i) [Operation (Minimize 0.07 loss), Tensor loss]
                (training_feed draws (generator nb + 2 * i)) =
                Inr (vars', [None, Some (scalar (ls ! i))])"
    by blast
  then show "\<exists>nb' ls.
            training_cell_ipynb draws nb = Inr nb' \<and>
            length ls = 15 \<and>
            generator nb' = generator nb + 2 * 15 \<and>
            stdout nb' = stdout nb @ PrintHeader # map2 PrintRow [0..<15] ls \<and>
            (\<forall>i<15. \<exists>nb_i vars'.
               for_range [0..<i] (training_iteration_ipynb draws)
                 (nb\<lparr>stdout := stdout nb @ [PrintHeader]\<rparr>) = Inr nb_i \<and>
               session_run (session nb_i) [Operation gradient_descent_step_ipynb, Tensor loss_ipynb]
                 (training_feed draws (generator nb + 2 * i)) =
                 Inr (vars', [None, Some (scalar (ls ! i))]))"
    unfolding training_cell_ipynb_eq training_iteration_ipynb_eq gradient_descent_step_ipynb_eq
      loss_ipynb_eq rows_printed_def
    by (intro exI [of _ nb'] exI [of _ ls]) simp
qed

theorem training_loop_rows_witness:
  "initialised example_variables \<and>
   (\<exists>nb' ls.
      training_cell_ipynb real
        \<lparr>generator = 15, session = example_variables, stdout = [], calls = []\<rparr> = Inr nb' \<and>
      length ls = 15 \<and> generator nb' = 45 \<and>
      stdout nb' = PrintHeader # map2 PrintRow [0..<15] ls)"
proof -
  let ?nb = "\<lparr>generator = 15, session = example_variables, stdout = [], calls = []\<rparr>"
  have init: "initialised (session ?nb)"
    by (simp add: example_variables_initialised)
  from training_loop_rows [OF init, of real] obtain nb' ls where
    "training_cell_ipynb real ?nb = Inr nb'" "length ls = 15" "generator nb' = generator ?nb + 2 * 15"
    "stdout nb' = stdout ?nb @ PrintHeader # map2 PrintRow [0..<15] ls"
    by blast
  then have "\<exists>nb' ls. training_cell_ipynb real ?nb = Inr nb' \<and>
      length ls = 15 \<and> generator nb' = 45 \<and>
      stdout nb' = PrintHeader # map2 PrintRow [0..<15] ls"
    by (intro exI [of _ nb'] exI [of _ ls]) simp
  with init show ?thesis by simp
qed

lemma not_negative_eq: "not_negative = (\<lambda>v. at_least_zero v \<or> v = NaN)"
  by (rule ext) (rule not_negative_iff)

lemma run_relu_nonneg:
  assumes "initialised vars" and "has_shape [2] x"
  shows "\<exists>r. session_run vars [Tensor relu_vector] [(placeholder_input, x)] = Inr (vars, [Some r]) \<and>
             list_all not_negative (entries r)"
proof -
  from initialised_values [OF assms(1)] obtain w11 w12 w21 w22 w31 w32 b1 b2 b3 where
    v: "vars ''my_matrix'' = Some (matrix [[w11, w12], [w21, w22], [w31, w32]])"
       "vars ''my_vector'' = Some (vector [b1, b2, b3])" by blast
  from has_shape_vector2 [OF assms(2)] obtain x1 x2 where x: "x = vector [x1, x2]" by blast
  show ?thesis
    unfolding x using v by (simp add: run_relu_vector) (simp add: vector_def)
qed

lemma run_loss_values:
  assumes "vars ''my_matrix'' = Some (matrix [[w11, w12], [w21, w22], [w31, w32]])"
    and "vars ''my_vector'' = Some (vector [b1, b2, b3])"
  shows "\<exists>l. session_run vars [Tensor loss]
             [(placeholder_input, vector [x1, x2]), (placeholder_output, vector [y1, y2, y3])] =
             Inr (vars, [Some (scalar l)]) \<and> not_negative l"
  using assms by (simp add: graph_defs value_defs upt_rec)

lemma run_step_nonneg:
  assumes "initialised vars" and "has_shape [2] x" and "has_shape [3] y"
  shows "\<exists>vars' l. session_run vars [Operation (Minimize rate loss), Tensor loss]
             [(placeholder_input, x), (placeholder_output, y)] =
             Inr (vars', [None, Some (scalar l)]) \<and> initialised vars' \<and> not_negative l"
proof -
  from initialised_values [OF assms(1)] obtain w11 w12 w21 w22 w31 w32 b1 b2 b3 where
    v: "vars ''my_matrix'' = Some (matrix [[w11, w12], [w21, w22], [w31, w32]])"
       "vars ''my_vector'' = Some (vector [b1, b2, b3])" by blast
  from has_shape_vector2 [OF assms(2)] obtain x1 x2 where x: "x = vector [x1, x2]" by blast
  from has_shape_vector3 [OF assms(3)] obtain y1 y2 y3 where y: "y = vector [y1, y2, y3]" by blast
  show ?thesis
    unfolding x y by (rule run_step_values [OF v])
qed

lemma run_overflow:
  "session_run overflow_variables [Tensor relu_vector]
     [(placeholder_input, vector [3 * 10 ^ 38, 3 * 10 ^ 38])] =
     Inr (overflow_variables, [Some (vector [NaN, PosInf, Finite 0])])"
  by (subst run_relu_vector [of _ "Finite 2" "Finite (- 2)" "Finite 2" "Finite 0" "Finite 0"
        "Finite 0" "Finite 0" "Finite 0" "Finite 0"])
    (simp_all add: overflow_variables_def float_defs)

lemma run_overflow_loss:
  "session_run overflow_variables [Tensor loss]
     [(placeholder_input, vector [3 * 10 ^ 38, 3 * 10 ^ 38]),
      (placeholder_output, vector [0, 0, 0])] =
     Inr (overflow_variables, [Some (scalar NaN)])"
  by (simp add: graph_defs value_defs upt_rec overflow_variables_def float_defs)

text \<open>
  C10 as stated, that every entry of \<open>relu_vector\<close> and the loss are at least 0 for every fed
  input and every state of the variables, fails in single precision: with the rows \<open>(2, -2)\<close>
  and \<open>(2, 0)\<close> in \<open>W\<close>, \<open>b = 0\<close> and the finite input \<open>(3e38, 3e38)\<close> both products of the
  first row overflow, \<open>relu_vector\<close> is \<open>(NaN, inf, 0)\<close> and the loss is NaN, and NaN is not at
  least 0.
\<close>

theorem relu_entry_and_loss_nan:
  "session_run overflow_variables [Tensor relu_vector]
     [(placeholder_input, vector [3 * 10 ^ 38, 3 * 10 ^ 38])] =
     Inr (overflow_variables, [Some (vector [NaN, PosInf, Finite 0])]) \<and>
   session_run overflow_variables [Tensor loss]
     [(placeholder_input, vector [3 * 10 ^ 38, 3 * 10 ^ 38]),
      (placeholder_output, vector [0, 0, 0])] =
     Inr (overflow_variables, [Some (scalar NaN)]) \<and>
   \<not> at_least_zero NaN \<and> initialised overflow_variables"
  using run_overflow run_overflow_loss example_variables_initialised(2) by simp

text \<open>
  C10, amended. For every value of the variables, every fed input of shape \<open>[2]\<close> and every fed
  target of shape \<open>[3]\<close>, each entry of \<open>relu_vector\<close> is at least 0 or NaN and the loss is at
  least 0 or NaN, also when it is fetched together with the gradient step; and every loss that
  the training loop prints is at least 0 or NaN. This holds in both variants.
\<close>

theorem relu_and_loss_nonnegative:
  assumes "initialised vars" and "has_shape [2] x" and "has_shape [3] y"
    and "session nb = vars"
  shows "(\<exists>r. session_run vars [Tensor relu_vector] [(placeholder_input, x)] =
                Inr (vars, [Some r]) \<and>
              list_all (\<lambda>v. at_least_zero v \<or> v = NaN) (entries r)) \<and>
         (\<exists>r. session_run vars [Tensor relu_vector_ipynb] [(placeholder_input_ipynb, x)] =
                Inr (vars, [Some r]) \<and>
              list_all (\<lambda>v. at_least_zero v \<or> v = NaN) (entries r)) \<and>
         (\<exists>vars' l. session_run vars [Operation gradient_descent_step, Tensor loss]
                [(placeholder_input, x), (placeholder_output, y)] =
                Inr (vars', [None, Some (scalar l)]) \<and> (at_least_zero l \<or> l = NaN)) \<and>
         (\<exists>vars' l. session_run vars [Operation gradient_descent_step_ipynb, Tensor loss_ipynb]
                [(placeholder_input_ipynb, x), (placeholder_output_ipynb, y)] =
                Inr (vars', [None, Some (scalar l)]) \<and> (at_least_zero l \<or> l = NaN)) \<and>
         (\<exists>nb' ls. training_cell draws nb = Inr nb' \<and> length ls = 150 \<and>
                stdout nb' = stdout nb @ PrintHeader # rows_printed ls \<and>
                list_all (\<lambda>l. at_least_zero l \<or> l = NaN) ls) \<and>
         (\<exists>nb' ls. training_cell_ipynb draws nb = Inr nb' \<and> length ls = 15 \<and>
                stdout nb' = stdout nb @ PrintHeader # rows_printed ls \<and>
                list_all (\<lambda>l. at_least_zero l \<or> l = NaN) ls)"
proof -
  have init: "initialised (session nb)" using assms(1,4) by simp
  have relu: "\<exists>r. session_run vars [Tensor relu_vector] [(placeholder_input, x)] =
                Inr (vars, [Some r]) \<and>
              list_all (\<lambda>v. at_least_zero v \<or> v = NaN) (entries r)"
    using run_relu_nonneg [OF assms(1,2)] by (simp only: not_negative_eq)
  have step: "\<exists>vars' l. session_run vars [Operation (Minimize rate loss), Tensor loss]
                [(placeholder_input, x), (placeholder_output, y)] =
                Inr (vars', [None, Some (scalar l)]) \<and> (at_least_zero l \<or> l = NaN)" for rate
    using run_step_nonneg [OF assms(1,2,3), of rate] by (auto simp: not_negative_iff)
  have loop: "\<exists>nb' ls. descent_loop rate n draws nb = Inr nb' \<and> length ls = n \<and>
                stdout nb' = stdout nb @ PrintHeader # rows_printed ls \<and>
                list_all (\<lambda>l. at_least_zero l \<or> l = NaN) ls" for rate n
    using descent_loop_run [OF init, of rate n draws] unfolding not_negative_eq by blast
  show ?thesis
    unfolding relu_vector_ipynb_eq placeholder_ipynb_eq loss_ipynb_eq
      gradient_descent_step_ipynb_eq gradient_descent_step_def
      training_cell_eq training_cell_ipynb_eq
    using relu step [of "0.1"] step [of "0.07"] loop [of "0.1" 150] loop [of "0.07" 15]
    by (intro conjI)
qed

theorem relu_and_loss_nonnegative_witness:
  "initialised overflow_variables \<and>
   has_shape [2] (vector [3 * 10 ^ 38, 3 * 10 ^ 38 :: real]) \<and>
   has_shape [3] (vector [0, 0, 0 :: real]) \<and>
   (\<exists>r. session_run overflow_variables [Tensor relu_vector]
           [(placeholder_input, vector [3 * 10 ^ 38, 3 * 10 ^ 38])] =
         Inr (overflow_variables, [Some r]) \<and>
         list_all (\<lambda>v. at_least_zero v \<or> v = NaN) (entries r))"
proof -
  let ?nb = "\<lparr>generator = 15, session = overflow_variables, stdout = [], calls = []\<rparr>"
  have init: "initialised overflow_variables"
    by (rule example_variables_initialised)
  have x: "has_shape [2] (vector [3 * 10 ^ 38, 3 * 10 ^ 38 :: real])"
    and y: "has_shape [3] (vector [0, 0, 0 :: real])"
    by (simp_all add: has_shape_def wf_tensor_def vector_def)
  have nb: "session ?nb = overflow_variables" by simp
  from relu_and_loss_nonnegative [OF init x y nb, of real] init x y
  show ?thesis by blast
qed

lemma for_range_error:
  "for_range [0..<n] body s = Inl e \<longleftrightarrow>
     (\<exists>k<n. \<exists>s_k. for_range [0..<k] body s = Inr s_k \<and> body k s_k = Inl e)"
proof (induction n arbitrary: e)
  case 0
  show ?case by simp
next
  case (Suc n)
  show ?case
  proof (cases "for_range [0..<n] body s")
    case (Inl e')
    then have none: "for_range [0..<k] body s = Inr s_k \<Longrightarrow> k < n" for k s_k
    proof -
      assume ok: "for_range [0..<k] body s = Inr s_k"
      show "k < n"
      proof (rule ccontr)
        assume "\<not> k < n"
        then have "[0..<k] = [0..<n] @ [n..<k]"
          by (metis le_add_diff_inverse not_less upt_add_eq_append zero_le)
        with ok Inl show False by (simp add: for_range_append then_do_def)
      qed
    qed
    have "for_range [0..<Suc n] body s = Inl e \<longleftrightarrow> for_range [0..<n] body s = Inl e"
      using Inl by (simp add: for_range_append then_do_def)
    also have "\<dots> \<longleftrightarrow> (\<exists>k<n. \<exists>s_k. for_range [0..<k] body s = Inr s_k \<and> body k s_k = Inl e)"
      by (rule Suc.IH)
    also have "\<dots> \<longleftrightarrow> (\<exists>k<Suc n. \<exists>s_k. for_range [0..<k] body s = Inr s_k \<and> body k s_k = Inl e)"
      using none by (metis less_Suc_eq)
    finally show ?thesis .
  next
    case (Inr s_n)
    then have not_before: "\<not> (\<exists>k<n. \<exists>s_k. for_range [0..<k] body s = Inr s_k \<and> body k s_k = Inl e')"
      for e' using Suc.IH [of e'] by simp
    have "for_range [0..<Suc n] body s = Inl e \<longleftrightarrow> body n s_n = Inl e"
      using Inr by (simp add: for_range_append then_do_def split: sum.splits)
    also have "\<dots> \<longleftrightarrow> (\<exists>k<Suc n. \<exists>s_k. for_range [0..<k] body s = Inr s_k \<and> body k s_k = Inl e)"
      using Inr not_before [of e] by (auto simp: less_Suc_eq)
    finally show ?thesis .
  qed
qed

lemma eval_loss_scalar: "eval vars fed loss = Inr v \<Longrightarrow> \<exists>l. v = scalar l"
  by (auto simp: loss_def then_do_def tf_reduce_sum_def split: sum.splits)

lemma run_step_results:
  assumes "session_run vars [Operation op, Tensor loss] feed_dict = Inr (vars', results)"
  shows "\<exists>l. results = [None, Some (scalar l)]"
  using assms eval_loss_scalar
  by (fastforce simp: session_run_def then_do_def split: sum.splits)

lemma descent_iteration_error:
  "descent_iteration rate draws i nb = Inl e \<longleftrightarrow>
     session_run (session nb) [Operation (Minimize rate loss), Tensor loss]
       (training_feed draws (generator nb)) = Inl e"
proof (cases "session_run (session nb) [Operation (Minimize rate loss), Tensor loss]
       (training_feed draws (generator nb))")
  case (Inl e')
  then show ?thesis by (simp add: descent_iteration_run then_do_def)
next
  case (Inr r)
  obtain vars' results where r: "r = (vars', results)" by (cases r)
  from run_step_results [OF Inr [unfolded r]] obtain l where "results = [None, Some (scalar l)]"
    by blast
  with Inr r show ?thesis by (simp add: descent_iteration_run then_do_def scalar_def)
qed

lemma descent_loop_error:
  "descent_loop rate n draws nb = Inl e \<longleftrightarrow>
     (\<exists>k<n. \<exists>nb_k.
        for_range [0..<k] (descent_iteration rate draws)
          (nb\<lparr>stdout := stdout nb @ [PrintHeader]\<rparr>) = Inr nb_k \<and>
        session_run (session nb_k) [Operation (Minimize rate loss), Tensor loss]
          (training_feed draws (generator nb_k)) = Inl e)"
  by (simp only: descent_loop_def for_range_error descent_iteration_error)

lemma retrieve_cell_error:
  "retrieve_cell nb = Inl e \<longleftrightarrow>
     session_run (session nb) [Tensor variable_matrix, Tensor variable_vector] [] = Inl e"
  by (auto simp: retrieve_cell_def run_def session_run_def then_do_def split: sum.splits)

lemma session_cell_error:
  "session_cell draws nb = Inl e \<longleftrightarrow>
     session_run Map.empty [Operation (global_variables_initializer draws)] [] = Inl e \<or>
     (\<exists>vars r. session_run Map.empty [Operation (global_variables_initializer draws)] [] =
                  Inr (vars, r) \<and>
              session_run vars [Tensor relu_vector] [(placeholder_input, np_asarray [1, 2])] = Inl e)"
  by (auto simp: session_cell_def run_def then_do_def split: sum.splits prod.splits)

lemma framework_errors:
  "session_run Map.empty [Tensor relu_vector] [(placeholder_input, vector [x1, x2])] =
     Inl (FailedPreconditionError ''my_matrix'')"
  "session_run vars [Tensor relu_vector] [(placeholder_input, vector [x1, x2, x3])] =
     Inl (ValueError ''Cannot feed value'')"
  "initialised vars \<Longrightarrow>
     session_run vars [Tensor relu_vector] [] = Inl (InvalidArgumentError ''my_input'')"
proof -
  show "session_run Map.empty [Tensor relu_vector] [(placeholder_input, vector [x1, x2])] =
     Inl (FailedPreconditionError ''my_matrix'')"
    by (simp add: graph_defs value_defs)
  show "session_run vars [Tensor relu_vector] [(placeholder_input, vector [x1, x2, x3])] =
     Inl (ValueError ''Cannot feed value'')"
    by (simp add: graph_defs value_defs)
  assume "initialised vars"
  from initialised_values [OF this] obtain w11 w12 w21 w22 w31 w32 b1 b2 b3 where
    "vars ''my_matrix'' = Some (matrix [[w11, w12], [w21, w22], [w31, w32]])"
    "vars ''my_vector'' = Some (vector [b1, b2, b3])" by blast
  then show "session_run vars [Tensor relu_vector] [] = Inl (InvalidArgumentError ''my_input'')"
    by (simp add: graph_defs value_defs)
qed

text \<open>
  C5. An exception leaves a cell exactly when a call of \<open>session.run\<close> in it raises, and it
  is the exception of that call: the training loop fails with \<open>e\<close> if and only if the call in
  some iteration, reached after the iterations before it succeeded, fails with \<open>e\<close>; the
  cell that retrieves the variables and the cell that starts the session fail with \<open>e\<close> if
  and only if one of their calls does. No cell adds, replaces or handles an exception.
\<close>

theorem errors_come_from_session_run:
  "(training_cell draws nb = Inl e \<longleftrightarrow>
      (\<exists>k<150. \<exists>nb_k.
         for_range [0..<k] (training_iteration draws)
           (nb\<lparr>stdout := stdout nb @ [PrintHeader]\<rparr>) = Inr nb_k \<and>
         session_run (session nb_k) [Operation gradient_descent_step, Tensor loss]
           (training_feed draws (generator nb_k)) = Inl e)) \<and>
   (training_cell_ipynb draws nb = Inl e \<longleftrightarrow>
      (\<exists>k<15. \<exists>nb_k.
         for_range [0..<k] (training_iteration_ipynb draws)
           (nb\<lparr>stdout := stdout nb @ [PrintHeader]\<rparr>) = Inr nb_k \<and>
         session_run (session nb_k) [Operation gradient_descent_step_ipynb, Tensor loss_ipynb]
           (training_feed draws (generator nb_k)) = Inl e)) \<and>
   (retrieve_cell nb = Inl e \<longleftrightarrow>
      session_run (session nb) [Tensor variable_matrix, Tensor variable_vector] [] = Inl e) \<and>
   (session_cell draws nb = Inl e \<longleftrightarrow>
      session_run Map.empty [Operation (global_variables_initializer draws)] [] = Inl e \<or>
      (\<exists>vars r. session_run Map.empty [Operation (global_variables_initializer draws)] [] =
                   Inr (vars, r) \<and>
               session_run vars [Tensor relu_vector] [(placeholder_input, np_asarray [1, 2])] =
                   Inl e))"
  unfolding training_cell_eq training_cell_ipynb_eq training_iteration_eq
    training_iteration_ipynb_eq gradient_descent_step_def gradient_descent_step_ipynb_eq
    loss_ipynb_eq
  using descent_loop_error [of "0.1" 150 draws nb e] descent_loop_error [of "0.07" 15 draws nb e]
    retrieve_cell_error [of nb e] session_cell_error [of draws nb e]
  by (intro conjI)

theorem errors_come_from_session_run_witness:
  "training_cell real \<lparr>generator = 15, session = Map.empty, stdout = [], calls = []\<rparr> =
     Inl (FailedPreconditionError ''my_matrix'')"
proof -
  let ?nb = "\<lparr>generator = 15, session = Map.empty, stdout = [], calls = []\<rparr>"
  have "for_range [0..<0] (training_iteration real) (?nb\<lparr>stdout := stdout ?nb @ [PrintHeader]\<rparr>) =
          Inr (?nb\<lparr>stdout := stdout ?nb @ [PrintHeader]\<rparr>)"
    by simp
  moreover have "session_run (session (?nb\<lparr>stdout := stdout ?nb @ [PrintHeader]\<rparr>))
           [Operation gradient_descent_step, Tensor loss]
           (training_feed real (generator (?nb\<lparr>stdout := stdout ?nb @ [PrintHeader]\<rparr>))) =
        Inl (FailedPreconditionError ''my_matrix'')"
    by (simp add: graph_defs value_defs training_feed_def gradient_descent_step_def)
  ultimately have "\<exists>k<150. \<exists>nb_k.
         for_range [0..<k] (training_iteration real)
           (?nb\<lparr>stdout := stdout ?nb @ [PrintHeader]\<rparr>) = Inr nb_k \<and>
         session_run (session nb_k) [Operation gradient_descent_step, Tensor loss]
           (training_feed real (generator nb_k)) = Inl (FailedPreconditionError ''my_matrix'')"
    by (intro exI [of _ 0] exI [of _ "?nb\<lparr>stdout := stdout ?nb @ [PrintHeader]\<rparr>"]) simp
  with errors_come_from_session_run [of real ?nb "FailedPreconditionError ''my_matrix''"]
  show ?thesis by blast
qed

lemma vector_sum_ipynb_eq: "vector_sum_ipynb = vector_sum"
  by (simp add: graph_defs graph_ipynb_defs)

lemma variable_ipynb_eq:
  "variable_matrix_ipynb = variable_matrix" "variable_vector_ipynb = variable_vector"
  by (simp_all add: graph_defs graph_ipynb_defs)

text \<open>
  C9. The two variants build the same graph: the layer, the loss and the construction of the
  target are the same expressions. Their training cells are the same loop, run with learning
  rate 0.1 for 150 iterations in \<^verbatim>\<open>src/unnamed/part_000\<close> and with learning rate 0.07 for
  15 iterations in the ipynb variant, and in this they do differ.
\<close>

theorem variants_differ_in_rate_and_count:
  "placeholder_input_ipynb = placeholder_input \<and>
   matrix_product_ipynb = matrix_product \<and>
   vector_sum_ipynb = vector_sum \<and>
   relu_vector_ipynb = relu_vector \<and>
   placeholder_output_ipynb = placeholder_output \<and>
   loss_ipynb = loss \<and>
   out_vec_ipynb = out_vec \<and>
   gradient_descent_step = Minimize 0.1 loss \<and>
   gradient_descent_step_ipynb = Minimize 0.07 loss \<and>
   gradient_descent_step_ipynb \<noteq> gradient_descent_step \<and>
   training_iteration = descent_iteration 0.1 \<and>
   training_iteration_ipynb = descent_iteration 0.07 \<and>
   training_cell = descent_loop 0.1 150 \<and>
   training_cell_ipynb = descent_loop 0.07 15"
  by (simp add: placeholder_ipynb_eq matrix_product_ipynb_eq vector_sum_ipynb_eq
      relu_vector_ipynb_eq loss_ipynb_eq out_vec_ipynb_eq gradient_descent_step_def
      gradient_descent_step_ipynb_eq training_iteration_eq training_iteration_ipynb_eq
      training_cell_eq training_cell_ipynb_eq)

theorem variants_differ_in_rate_and_count_witness:
  "training_cell real \<lparr>generator = 15, session = Map.empty, stdout = [], calls = []\<rparr> =
     descent_loop 0.1 150 real
       \<lparr>generator = 15, session = Map.empty, stdout = [], calls = []\<rparr> \<and>
   training_cell_ipynb real \<lparr>generator = 15, session = Map.empty, stdout = [], calls = []\<rparr> =
     descent_loop 0.07 15 real
       \<lparr>generator = 15, session = Map.empty, stdout = [], calls = []\<rparr>"
  using variants_differ_in_rate_and_count by simp

text \<open>
  C3 as stated, that every framework call of the notebook is one of constant, variable and
  placeholder construction, matrix multiplication, reshape, ReLU, an optimizer and a session,
  fails: the loss is built with \<open>tf.reduce_sum\<close>, which is not in that list.
\<close>

theorem reduce_sum_not_enumerated:
  "Api_reduce_sum \<in> set (notebook_calls real) \<and> Api_reduce_sum \<notin> enumerated_primitives"
  by (simp add: notebook_calls_def enumerated_primitives_def graph_defs)

text \<open>
  C3, amended. The framework calls of the notebook, in both variants, are the enumerated ones
  together with tensor addition and subtraction, \<open>tf.square\<close>, \<open>tf.reduce_sum\<close>,
  \<open>tf.global_variables_initializer\<close> and \<open>tf.layers.dense\<close>.
\<close>

theorem notebook_calls_enumerated_and_six_more:
  "set (notebook_calls draws) =
     enumerated_primitives \<union>
       {Api_add, Api_subtract, Api_square, Api_reduce_sum, Api_global_variables_initializer,
        Api_layers_dense} \<and>
   set (notebook_calls_ipynb draws) =
     enumerated_primitives \<union>
       {Api_add, Api_subtract, Api_square, Api_reduce_sum, Api_global_variables_initializer,
        Api_layers_dense}"
  by (auto simp: notebook_calls_def notebook_calls_ipynb_def enumerated_primitives_def graph_defs
      graph_ipynb_defs constant_scalar_def constant_matrix_def global_variables_initializer_def
      gradient_descent_step_def gradient_descent_step_ipynb_def batched_vectors_def
      alternative_relu_vector_def)

theorem notebook_calls_enumerated_and_six_more_witness:
  "Api_layers_dense \<in> set (notebook_calls_ipynb real) \<and>
   Api_square \<in> set (notebook_calls real) \<and>
   Api_matmul \<in> set (notebook_calls real)"
  using notebook_calls_enumerated_and_six_more [of real]
  by (simp add: enumerated_primitives_def)

text \<open>The value of a tensor depends on the fed values of its placeholders only.\<close>

lemma eval_depends_on_placeholders:
  assumes "\<And>name dims. Placeholder name dims \<in> placeholders_of x \<Longrightarrow> fed name = fed' name"
  shows "eval vars fed x = eval vars fed' x"
  using assms
proof (induction x)
  case (Placeholder name dims)
  then show ?case by (simp add: read_placeholder_def)
next
  case (MatMul a b)
  have "eval vars fed a = eval vars fed' a" using MatMul.prems by (intro MatMul.IH(1)) auto
  moreover have "eval vars fed b = eval vars fed' b"
    using MatMul.prems by (intro MatMul.IH(2)) auto
  ultimately show ?case by simp
next
  case (Add a b)
  have "eval vars fed a = eval vars fed' a" using Add.prems by (intro Add.IH(1)) auto
  moreover have "eval vars fed b = eval vars fed' b" using Add.prems by (intro Add.IH(2)) auto
  ultimately show ?case by simp
next
  case (Sub a b)
  have "eval vars fed a = eval vars fed' a" using Sub.prems by (intro Sub.IH(1)) auto
  moreover have "eval vars fed b = eval vars fed' b" using Sub.prems by (intro Sub.IH(2)) auto
  ultimately show ?case by simp
qed simp_all

lemma placeholders_of_placeholder:
  "placeholders_of placeholder_input = {placeholder_input}"
  "placeholders_of placeholder_output = {placeholder_output}"
  "placeholders_of batched_vectors = {batched_vectors}"
  by (simp_all add: placeholder_input_def placeholder_output_def batched_vectors_def)

lemma placeholders_of_layer:
  "placeholders_of variable_matrix = {}"
  "placeholders_of variable_vector = {}"
  "placeholders_of matrix_product = {placeholder_input}"
  "placeholders_of vector_sum = {placeholder_input}"
  "placeholders_of relu_vector = {placeholder_input}"
  "placeholders_of loss = {placeholder_input, placeholder_output}"
  by (auto simp: variable_matrix_def variable_vector_def matrix_product_def vector_sum_def
      relu_vector_def loss_def placeholders_of_placeholder)

lemma all_placeholders_part_000:
  "all_placeholders (notebook_tensors draws) =
     {placeholder_input, placeholder_output, batched_vectors}"
  by (simp add: notebook_tensors_def placeholders_of_layer placeholders_of_placeholder
      constant_scalar_def constant_matrix_def alternative_relu_vector_def, blast)

lemma notebook_tensors_ipynb_eq: "notebook_tensors_ipynb = notebook_tensors"
  by (intro ext) (simp add: notebook_tensors_ipynb_def notebook_tensors_def placeholder_ipynb_eq
      matrix_product_ipynb_eq vector_sum_ipynb_eq relu_vector_ipynb_eq loss_ipynb_eq
      variable_ipynb_eq)

lemma needed_of_calls:
  "needed [Operation (global_variables_initializer draws)] = {}"
  "needed [Tensor relu_vector] = {placeholder_input}"
  "needed [Operation (Minimize rate loss), Tensor loss] = {placeholder_input, placeholder_output}"
  "needed [Tensor variable_matrix, Tensor variable_vector] = {}"
  by (auto simp: global_variables_initializer_def placeholders_of_layer)

lemma run_variables:
  assumes "initialised vars"
  shows "\<exists>w b. session_run vars [Tensor variable_matrix, Tensor variable_vector] [] =
           Inr (vars, [Some w, Some b])"
  using initialised_values [OF assms]
  by (auto simp: session_run_def then_do_def graph_defs read_variable_def)

lemma run_step_unfed:
  assumes "initialised vars"
  shows "session_run vars [Operation (Minimize rate loss), Tensor loss]
           [(placeholder_input, vector [x1, x2])] = Inl (InvalidArgumentError ''my_output'')"
    and "session_run vars [Operation (Minimize rate loss), Tensor loss]
           [(placeholder_output, vector [y1, y2, y3])] = Inl (InvalidArgumentError ''my_input'')"
proof -
  from initialised_values [OF assms] obtain w11 w12 w21 w22 w31 w32 b1 b2 b3 where
    v: "vars ''my_matrix'' = Some (matrix [[w11, w12], [w21, w22], [w31, w32]])"
    "vars ''my_vector'' = Some (vector [b1, b2, b3])" by blast
  from v show "session_run vars [Operation (Minimize rate loss), Tensor loss]
           [(placeholder_input, vector [x1, x2])] = Inl (InvalidArgumentError ''my_output'')"
    by (simp add: graph_defs value_defs upt_rec)
  from v show "session_run vars [Operation (Minimize rate loss), Tensor loss]
           [(placeholder_output, vector [y1, y2, y3])] = Inl (InvalidArgumentError ''my_input'')"
    by (simp add: graph_defs value_defs upt_rec)
qed

lemma session_cell_ok:
  "\<exists>vars r. session_cell draws nb =
       Inr (nb\<lparr>session := vars, stdout := stdout nb @ [PrintValues [Some r]],
               calls := calls nb @
                 [([Operation (global_variables_initializer draws)], []),
                  ([Tensor relu_vector], [placeholder_input])]\<rparr>) \<and>
     initialised vars"
proof -
  let ?vars = "[''my_matrix'' \<mapsto> cast32 (fst (np_random_randn [3, 2] draws 6)),
                ''my_vector'' \<mapsto> cast32 (fst (np_random_randn [3] draws 12))]"
  have init: "session_run Map.empty [Operation (global_variables_initializer draws)] [] =
      Inr (?vars, [None])"
    by (simp add: session_run_def then_do_def global_variables_initializer_def)
  have ok: "initialised ?vars"
    by (simp add: initialised_def has_shape_def wf_tensor_def np_random_randn_def cast32_def)
  have x: "has_shape [2] (np_asarray [1, 2])"
    by (simp add: has_shape_def wf_tensor_def np_asarray_def vector_def)
  from run_relu_nonneg [OF ok x] obtain r where
    "session_run ?vars [Tensor relu_vector] [(placeholder_input, np_asarray [1, 2])] =
       Inr (?vars, [Some r])" by blast
  with init ok show ?thesis
    by (intro exI [of _ ?vars] exI [of _ r]) (simp add: session_cell_def run_def then_do_def)
qed

lemma retrieve_cell_ok:
  assumes "initialised (session nb)"
  shows "\<exists>w b. retrieve_cell nb =
           Inr (nb\<lparr>stdout := stdout nb @ [PrintArray w, PrintArray b],
                   calls := calls nb @ [([Tensor variable_matrix, Tensor variable_vector], [])]\<rparr>)"
proof -
  from run_variables [OF assms] obtain w b where
    "session_run (session nb) [Tensor variable_matrix, Tensor variable_vector] [] =
       Inr (session nb, [Some w, Some b])" by blast
  then have "retrieve_cell nb =
           Inr (nb\<lparr>stdout := stdout nb @ [PrintArray w, PrintArray b],
                   calls := calls nb @ [([Tensor variable_matrix, Tensor variable_vector], [])]\<rparr>)"
    by (simp add: retrieve_cell_def run_def then_do_def)
  then show ?thesis by blast
qed

text \<open>
  A run of all cells, for a learning rate and a number of iterations: no cell raises, whatever
  the generator draws. After the handles and the values of \<open>relu_vector\<close> the notebook prints
  the header, the rows, the two variables and the last two handles, and it calls
  \<open>session.run\<close> for the initialiser, for \<open>relu_vector\<close>, once in every iteration and for the
  two variables.
\<close>

lemma cells_run:
  "\<exists>nb r ls w b.
     then_do (session_cell draws
                (graph_cells draws
                   \<lparr>generator = 0, session = Map.empty, stdout = [], calls = []\<rparr>)) (\<lambda>nb.
     then_do (descent_loop rate n draws nb) (\<lambda>nb.
     then_do (retrieve_cell nb) (\<lambda>nb. Inr (last_cells nb)))) = Inr nb \<and>
     length ls = n \<and>
     stdout nb =
       map PrintHandle
         [constant_scalar, constant_matrix draws, variable_matrix, variable_vector,
          placeholder_input, matrix_product, vector_sum, relu_vector] @
       PrintValues [Some r] # PrintHeader # rows_printed ls @
       [PrintArray w, PrintArray b, PrintHandle batched_vectors,
        PrintHandle alternative_relu_vector] \<and>
     calls nb =
       ([Operation (global_variables_initializer draws)], []) #
       ([Tensor relu_vector], [placeholder_input]) #
       replicate n ([Operation (Minimize rate loss), Tensor loss],
                    [placeholder_input, placeholder_output]) @
       [([Tensor variable_matrix, Tensor variable_vector], [])]"
proof -
  let ?start = "graph_cells draws \<lparr>generator = 0, session = Map.empty, stdout = [], calls = []\<rparr>"
  from session_cell_ok [of draws ?start] obtain vars r where
    c1: "session_cell draws ?start =
           Inr (?start\<lparr>session := vars, stdout := stdout ?start @ [PrintValues [Some r]],
               calls := calls ?start @
                 [([Operation (global_variables_initializer draws)], []),
                  ([Tensor relu_vector], [placeholder_input])]\<rparr>)"
    and i1: "initialised vars" by blast
  let ?first = "?start\<lparr>session := vars, stdout := stdout ?start @ [PrintValues [Some r]],
               calls := calls ?start @
                 [([Operation (global_variables_initializer draws)], []),
                  ([Tensor relu_vector], [placeholder_input])]\<rparr>"
  have "initialised (session ?first)" using i1 by simp
  from descent_loop_run [OF this, of rate n draws] obtain nb2 ls where
    c2: "descent_loop rate n draws ?first = Inr nb2" and i2: "initialised (session nb2)"
    and len: "length ls = n"
    and out2: "stdout nb2 = stdout ?first @ PrintHeader # rows_printed ls"
    and calls2: "calls nb2 = calls ?first @
             replicate n ([Operation (Minimize rate loss), Tensor loss],
                          [placeholder_input, placeholder_output])"
    by blast
  from retrieve_cell_ok [OF i2] obtain w b where
    c3: "retrieve_cell nb2 =
           Inr (nb2\<lparr>stdout := stdout nb2 @ [PrintArray w, PrintArray b],
                   calls := calls nb2 @ [([Tensor variable_matrix, Tensor variable_vector], [])]\<rparr>)"
    by blast
  let ?final = "last_cells
      (nb2\<lparr>stdout := stdout nb2 @ [PrintArray w, PrintArray b],
           calls := calls nb2 @ [([Tensor variable_matrix, Tensor variable_vector], [])]\<rparr>)"
  have "then_do (session_cell draws ?start) (\<lambda>nb.
     then_do (descent_loop rate n draws nb) (\<lambda>nb.
     then_do (retrieve_cell nb) (\<lambda>nb. Inr (last_cells nb)))) = Inr ?final"
    by (simp add: then_do_def c1 c2 c3)
  moreover have "stdout ?final =
       map PrintHandle
         [constant_scalar, constant_matrix draws, variable_matrix, variable_vector,
          placeholder_input, matrix_product, vector_sum, relu_vector] @
       PrintValues [Some r] # PrintHeader # rows_printed ls @
       [PrintArray w, PrintArray b, PrintHandle batched_vectors,
        PrintHandle alternative_relu_vector]"
    by (simp add: last_cells_def out2 graph_cells_def)
  moreover have "calls ?final =
       ([Operation (global_variables_initializer draws)], []) #
       ([Tensor relu_vector], [placeholder_input]) #
       replicate n ([Operation (Minimize rate loss), Tensor loss],
                    [placeholder_input, placeholder_output]) @
       [([Tensor variable_matrix, Tensor variable_vector], [])]"
    by (simp add: last_cells_def calls2 graph_cells_def)
  ultimately show ?thesis using len by blast
qed

lemma run_notebook_ok:
  "\<exists>nb r ls w b.
     run_notebook draws = Inr nb \<and> length ls = 150 \<and>
     stdout nb =
       map PrintHandle
         [constant_scalar, constant_matrix draws, variable_matrix, variable_vector,
          placeholder_input, matrix_product, vector_sum, relu_vector] @
       PrintValues [Some r] # PrintHeader # rows_printed ls @
       [PrintArray w, PrintArray b, PrintHandle batched_vectors,
        PrintHandle alternative_relu_vector] \<and>
     calls nb =
       ([Operation (global_variables_initializer draws)], []) #
       ([Tensor relu_vector], [placeholder_input]) #
       replicate 150 ([Operation gradient_descent_step, Tensor loss],
                    [placeholder_input, placeholder_output]) @
       [([Tensor variable_matrix, Tensor variable_vector], [])]"
  using cells_run [of draws "0.1" 150]
  by (simp only: run_notebook_def training_cell_eq gradient_descent_step_def)

lemma run_notebook_ipynb_ok:
  "\<exists>nb r ls w b.
     run_notebook_ipynb draws = Inr nb \<and> length ls = 15 \<and>
     stdout nb =
       map PrintHandle
         [constant_scalar, constant_matrix draws, variable_matrix, variable_vector,
          placeholder_input, matrix_product, vector_sum, relu_vector] @
       PrintValues [Some r] # PrintHeader # rows_printed ls @
       [PrintArray w, PrintArray b, PrintHandle batched_vectors,
        PrintHandle alternative_relu_vector] \<and>
     calls nb =
       ([Operation (global_variables_initializer draws)], []) #
       ([Tensor relu_vector], [placeholder_input]) #
       replicate 15 ([Operation gradient_descent_step_ipynb, Tensor loss_ipynb],
                    [placeholder_input_ipynb, placeholder_output_ipynb]) @
       [([Tensor variable_matrix, Tensor variable_vector], [])]"
  using cells_run [of draws "0.07" 15]
  by (simp only: run_notebook_ipynb_def training_cell_ipynb_eq gradient_descent_step_ipynb_eq
      loss_ipynb_eq placeholder_ipynb_eq)

lemma fed_exactly_calls:
  "list_all fed_exactly
     (([Operation (global_variables_initializer draws)], []) #
      ([Tensor relu_vector], [placeholder_input]) #
      replicate n ([Operation (Minimize rate loss), Tensor loss],
                   [placeholder_input, placeholder_output]) @
      [([Tensor variable_matrix, Tensor variable_vector], [])])"
  by (auto simp add: list_all_iff fed_exactly_def needed_of_calls
      simp del: needed.simps fetch_placeholders.simps)

text \<open>
  C4. The placeholders of the notebook are \<open>placeholder_input\<close>, \<open>placeholder_output\<close> and
  \<open>batched_vectors\<close>; each has a declared shape and no value unless one is fed. A run of the
  cells, in either variant, calls \<open>session.run\<close> for the initialiser with no fed value, for
  \<open>relu_vector\<close> feeding \<open>placeholder_input\<close>, in each of the 150 (15) iterations for the
  training step and the loss feeding both placeholders, and for the two variables with no fed
  value; in each of these calls the keys of the \<open>feed_dict\<close> are the placeholders that the
  fetches depend on. With initialised variables the two variables are fetched without any fed
  value, while \<open>relu_vector\<close> and the training step fail when a placeholder they depend on is
  not fed.
\<close>

theorem placeholders_fed_where_needed:
  assumes "initialised vars"
  shows "all_placeholders (notebook_tensors draws) =
           {placeholder_input, placeholder_output, batched_vectors} \<and>
         all_placeholders (notebook_tensors_ipynb draws) =
           {placeholder_input, placeholder_output, batched_vectors} \<and>
         map declared_shape [placeholder_input, placeholder_output, batched_vectors] =
           [Some [Some 2], Some [Some 3], Some [None, Some 5]] \<and>
         map (eval vars Map.empty) [placeholder_input, placeholder_output, batched_vectors] =
           [Inl (InvalidArgumentError ''my_input''), Inl (InvalidArgumentError ''my_output''),
            Inl (InvalidArgumentError ''Placeholder'')] \<and>
         (\<exists>nb. run_notebook draws = Inr nb \<and>
            calls nb =
              ([Operation (global_variables_initializer draws)], []) #
              ([Tensor relu_vector], [placeholder_input]) #
              replicate 150 ([Operation gradient_descent_step, Tensor loss],
                             [placeholder_input, placeholder_output]) @
              [([Tensor variable_matrix, Tensor variable_vector], [])] \<and>
            list_all fed_exactly (calls nb)) \<and>
         (\<exists>nb. run_notebook_ipynb draws = Inr nb \<and>
            calls nb =
              ([Operation (global_variables_initializer draws)], []) #
              ([Tensor relu_vector], [placeholder_input]) #
              replicate 15 ([Operation gradient_descent_step_ipynb, Tensor loss_ipynb],
                            [placeholder_input_ipynb, placeholder_output_ipynb]) @
              [([Tensor variable_matrix, Tensor variable_vector], [])] \<and>
            list_all fed_exactly (calls nb)) \<and>
         needed [Operation (global_variables_initializer draws)] = {} \<and>
         needed [Tensor relu_vector] = {placeholder_input} \<and>
         needed [Operation gradient_descent_step, Tensor loss] =
           {placeholder_input, placeholder_output} \<and>
         needed [Operation gradient_descent_step_ipynb, Tensor loss_ipynb] =
           {placeholder_input_ipynb, placeholder_output_ipynb} \<and>
         needed [Tensor variable_matrix, Tensor variable_vector] = {} \<and>
         (\<exists>w b. session_run vars [Tensor variable_matrix, Tensor variable_vector] [] =
                  Inr (vars, [Some w, Some b])) \<and>
         session_run vars [Tensor relu_vector] [] = Inl (InvalidArgumentError ''my_input'') \<and>
         session_run vars [Operation gradient_descent_step, Tensor loss]
           [(placeholder_input, vector [x1, x2])] = Inl (InvalidArgumentError ''my_output'') \<and>
         session_run vars [Operation gradient_descent_step, Tensor loss]
           [(placeholder_output, vector [y1, y2, y3])] = Inl (InvalidArgumentError ''my_input'')"
proof -
  have shapes: "map declared_shape [placeholder_input, placeholder_output, batched_vectors] =
           [Some [Some 2], Some [Some 3], Some [None, Some 5]]"
    by (simp add: declared_shape_def graph_defs batched_vectors_def)
  have unfed: "map (eval vars Map.empty) [placeholder_input, placeholder_output, batched_vectors] =
           [Inl (InvalidArgumentError ''my_input''), Inl (InvalidArgumentError ''my_output''),
            Inl (InvalidArgumentError ''Placeholder'')]"
    by (simp add: graph_defs batched_vectors_def read_placeholder_def)
  have part_000: "\<exists>nb. run_notebook draws = Inr nb \<and>
            calls nb =
              ([Operation (global_variables_initializer draws)], []) #
              ([Tensor relu_vector], [placeholder_input]) #
              replicate 150 ([Operation gradient_descent_step, Tensor loss],
                             [placeholder_input, placeholder_output]) @
              [([Tensor variable_matrix, Tensor variable_vector], [])] \<and>
            list_all fed_exactly (calls nb)"
  proof -
    from run_notebook_ok [of draws] obtain nb where
      r: "run_notebook draws = Inr nb"
      and c: "calls nb =
              ([Operation (global_variables_initializer draws)], []) #
              ([Tensor relu_vector], [placeholder_input]) #
              replicate 150 ([Operation gradient_descent_step, Tensor loss],
                             [placeholder_input, placeholder_output]) @
              [([Tensor variable_matrix, Tensor variable_vector], [])]"
      by blast
    have "list_all fed_exactly (calls nb)"
      unfolding c gradient_descent_step_def by (rule fed_exactly_calls)
    with r c show ?thesis by blast
  qed
  have ipynb: "\<exists>nb. run_notebook_ipynb draws = Inr nb \<and>
            calls nb =
              ([Operation (global_variables_initializer draws)], []) #
              ([Tensor relu_vector], [placeholder_input]) #
              replicate 15 ([Operation gradient_descent_step_ipynb, Tensor loss_ipynb],
                            [placeholder_input_ipynb, placeholder_output_ipynb]) @
              [([Tensor variable_matrix, Tensor variable_vector], [])] \<and>
            list_all fed_exactly (calls nb)"
  proof -
    from run_notebook_ipynb_ok [of draws] obtain nb where
      r: "run_notebook_ipynb draws = Inr nb"
      and c: "calls nb =
              ([Operation (global_variables_initializer draws)], []) #
              ([Tensor relu_vector], [placeholder_input]) #
              replicate 15 ([Operation gradient_descent_step_ipynb, Tensor loss_ipynb],
                            [placeholder_input_ipynb, placeholder_output_ipynb]) @
              [([Tensor variable_matrix, Tensor variable_vector], [])]"
      by blast
    have "list_all fed_exactly (calls nb)"
      unfolding c gradient_descent_step_ipynb_eq loss_ipynb_eq placeholder_ipynb_eq
      by (rule fed_exactly_calls)
    with r c show ?thesis by blast
  qed
  have needed_ipynb: "needed [Operation gradient_descent_step_ipynb, Tensor loss_ipynb] =
           {placeholder_input_ipynb, placeholder_output_ipynb}"
    unfolding gradient_descent_step_ipynb_eq loss_ipynb_eq placeholder_ipynb_eq
    by (rule needed_of_calls)
  show ?thesis
    unfolding notebook_tensors_ipynb_eq
    using all_placeholders_part_000 [of draws] shapes unfed part_000 ipynb
      needed_of_calls(1) [of draws] needed_of_calls(2)
      needed_of_calls(3) [of "0.1", folded gradient_descent_step_def] needed_ipynb
      needed_of_calls(4)
      run_variables [OF assms] framework_errors(3) [OF assms]
      run_step_unfed [OF assms, of "0.1", folded gradient_descent_step_def]
    by (intro conjI)
qed

theorem placeholders_fed_where_needed_witness:
  "initialised example_variables \<and>
   (\<exists>nb. run_notebook real = Inr nb \<and> list_all fed_exactly (calls nb)) \<and>
   session_run example_variables [Tensor relu_vector] [] = Inl (InvalidArgumentError ''my_input'')"
proof -
  have init: "initialised example_variables"
    by (rule example_variables_initialised)
  from placeholders_fed_where_needed [OF init, of real] init
  show ?thesis by blast
qed

end
